theory Spec2Isabelle
  imports Main
begin

section \<open>Data model\<close>

subsection \<open>JSON values\<close>

text \<open>
  Request bodies (\<open>req.json()\<close>) and Kafka message values (\<open>JSON.parse\<close>) are
  JSON values. Numbers are kept to the integers; an object is the list of its members in
  source order, a later member winning over an earlier one of the same name.
\<close>

datatype json =
    JNull
  | JBool bool
  | JNum int
  | JStr string
  | JArr "json list"
  | JObj "(string \<times> json) list"

text \<open>\<open>v.name\<close> on a parsed value: \<open>None\<close> is JavaScript's \<open>undefined\<close>.\<close>

fun member :: "json \<Rightarrow> string \<Rightarrow> json option" where
  "member (JObj fs) name = map_of (rev fs) name"
| "member _ name = None"


subsection \<open>Tables\<close>

text \<open>
  The three tables of \<open>index.ts\<close>, with the columns the offer routes read or write.
  The \<open>status\<close> column is \<open>TEXT\<close> under
  \<open>CHECK(status IN ('pending', 'accepted', 'rejected'))\<close>, hence a three-valued type.
\<close>

datatype offer_status = Pending | Accepted | Rejected

fun status_text :: "offer_status \<Rightarrow> string" where
  "status_text Pending = ''pending''"
| "status_text Accepted = ''accepted''"
| "status_text Rejected = ''rejected''"

record user_row =
  user_id :: int
  user_name :: string
  user_email :: string

record game_row =
  game_id :: int
  game_name :: string
  game_year :: int
  owner_id :: int

record offer_row =
  offer_id :: int
  requested_game_id :: int
  offered_game_id :: int
  offerer_id :: int
  recipient_id :: int
  status :: offer_status
  created_at :: int
  updated_at :: int

subsection \<open>Events\<close>

text \<open>\<open>EmailSendEvent\<close> of \<open>event-schemas.ts\<close>, and the message handed to the producer.\<close>

record EmailSendEvent =
  ev_type :: string
  ev_id :: string
  ev_timestamp :: int
  ev_to :: string
  ev_subject :: string
  ev_body :: string

record kafka_message =
  msg_key :: string
  msg_value :: EmailSendEvent
  correlation_id :: string

text \<open>
  What a handler does to the outside, in program order: a row written to
  \<open>trade_offers\<close>, a message handed to \<open>producer.send\<close>, a line on
  \<open>console.error\<close>.
\<close>

datatype effect =
    SqlWrite offer_row
  | ProducerSend kafka_message
  | ConsoleError string

fun is_send :: "effect \<Rightarrow> bool" where
  "is_send (ProducerSend _) = True"
| "is_send _ = False"

fun is_write :: "effect \<Rightarrow> bool" where
  "is_write (SqlWrite _) = True"
| "is_write _ = False"

subsection \<open>The world a handler runs in\<close>

record world =
  users :: "user_row list"
  games :: "game_row list"
  trade_offers :: "offer_row list"
  trade_offers_id_seq :: int
  id_calls :: nat
  trace :: "effect list"

text \<open>The six offer templates of \<open>email-templates.ts\<close>, by name.\<close>

datatype template =
    offerReceivedTemplate
  | offerCreatedConfirmationTemplate
  | offerAcceptedTemplate
  | offerAcceptedRecipientTemplate
  | offerRejectedTemplate
  | offerRejectedRecipientTemplate

text \<open>
  What the code takes from outside the repository: \<open>jwt.verify\<close> under the server's
  secret (\<open>None\<close> when it throws), \<open>new Date()\<close>, the successive results of
  \<open>generateEventId()\<close>, whether the broker takes a message, and the function
  \<open>Handlebars.compile\<close> makes of a template.
\<close>

record env =
  jwt_verify :: "string \<Rightarrow> int option"
  clock :: int
  event_ids :: "nat \<Rightarrow> string"
  broker :: "kafka_message \<Rightarrow> bool"
  handlebars :: "template \<Rightarrow> (string \<times> json) list \<Rightarrow> string"

record request =
  authorization :: "string option"
  json_body :: "json option"

datatype 'a safe_parse = Failure string | Success 'a

record offer_json =
  j_id :: int
  j_requestedGameId :: int
  j_offeredGameId :: int
  j_offererId :: int
  j_recipientId :: int
  j_status :: string
  j_createdAt :: int
  j_updatedAt :: int

datatype response =
    ErrorResponse nat string
  | OfferResponse nat offer_json
  | OffersResponse "offer_json list"

section \<open>The API server (\<open>index.ts\<close>)\<close>

subsection \<open>Helpers\<close>

definition authenticate :: "env \<Rightarrow> request \<Rightarrow> int option" where
  "authenticate e req =
     (case authorization req of
        None \<Rightarrow> None
      | Some authHeader \<Rightarrow>
          if take 7 authHeader \<noteq> ''Bearer '' then None
          else jwt_verify e (drop 7 authHeader))"

definition errorResponse :: "nat \<Rightarrow> string \<Rightarrow> response" where
  "errorResponse code message = ErrorResponse code message"

definition requireAuth :: "env \<Rightarrow> request \<Rightarrow> response + int" where
  "requireAuth e req =
     (case authenticate e req of
        None \<Rightarrow> Inl (errorResponse 401 ''Unauthorized: Please login first'')
      | Some userId \<Rightarrow> Inr userId)"

text \<open>The \<open>_links\<close> member is a function of the five ids shown and is left out.\<close>

definition formatTradeOfferResponse :: "offer_row \<Rightarrow> offer_json" where
  "formatTradeOfferResponse offer =
     \<lparr> j_id = offer_id offer,
       j_requestedGameId = requested_game_id offer,
       j_offeredGameId = offered_game_id offer,
       j_offererId = offerer_id offer,
       j_recipientId = recipient_id offer,
       j_status = status_text (status offer),
       j_createdAt = created_at offer,
       j_updatedAt = updated_at offer \<rparr>"

subsection \<open>Request schemas\<close>

text \<open>
  Modelled from the spec: \<open>TradeOfferInputSchema\<close> of \<open>./schemas\<close>, which the
  sources do not hold. A creation request names the requested and the offered item; the
  tests send \<open>{requestedGameId, offeredGameId}\<close> with numeric ids. The text of the
  validation message is the validation library's.
\<close>

definition TradeOfferInputSchema :: "json \<Rightarrow> (int \<times> int) safe_parse" where
  "TradeOfferInputSchema body =
     (case (member body ''requestedGameId'', member body ''offeredGameId'') of
        (Some (JNum r), Some (JNum g)) \<Rightarrow> Success (r, g)
      | _ \<Rightarrow> Failure ''Invalid trade offer input'')"

text \<open>
  Modelled from the spec: \<open>TradeOfferUpdateSchema\<close> of \<open>./schemas\<close>, which the
  sources do not hold: \<open>newStatus\<close> must be one of the two terminal values (else
  \<open>InvalidRequest\<close>). The tests send \<open>{status: "accepted"}\<close> and
  \<open>{status: "rejected"}\<close>.
\<close>

definition TradeOfferUpdateSchema :: "json \<Rightarrow> offer_status safe_parse" where
  "TradeOfferUpdateSchema body =
     (case member body ''status'' of
        Some (JStr s) \<Rightarrow>
          if s = ''accepted'' then Success Accepted
          else if s = ''rejected'' then Success Rejected
          else Failure ''Invalid trade offer update''
      | _ \<Rightarrow> Failure ''Invalid trade offer update'')"

subsection \<open>SQL statements\<close>

definition select_user :: "world \<Rightarrow> int \<Rightarrow> user_row list" where
  "select_user w i = filter (\<lambda>u. user_id u = i) (users w)"

definition select_game :: "world \<Rightarrow> int \<Rightarrow> game_row list" where
  "select_game w i = filter (\<lambda>g. game_id g = i) (games w)"

definition select_offer :: "world \<Rightarrow> int \<Rightarrow> offer_row list" where
  "select_offer w i = filter (\<lambda>offer. offer_id offer = i) (trade_offers w)"

text \<open>
  \<open>INSERT INTO trade_offers ... RETURNING *\<close>. The id comes from the \<open>SERIAL\<close>
  sequence; the statement fails (\<open>None\<close>: the awaited promise rejects) when one of the
  four foreign keys has no target.
\<close>

definition insert_offer ::
  "world \<Rightarrow> int \<Rightarrow> int \<Rightarrow> int \<Rightarrow> int \<Rightarrow> int \<Rightarrow> (offer_row list \<times> world) option" where
  "insert_offer w requestedGameId offeredGameId offererId recipientId now =
     (if select_game w requestedGameId = [] \<or> select_game w offeredGameId = []
         \<or> select_user w offererId = [] \<or> select_user w recipientId = []
      then None
      else
        let row = \<lparr> offer_id = trade_offers_id_seq w + 1,
                    requested_game_id = requestedGameId,
                    offered_game_id = offeredGameId,
                    offerer_id = offererId,
                    recipient_id = recipientId,
                    status = Pending,
                    created_at = now,
                    updated_at = now \<rparr>
        in Some ([row],
                 w\<lparr> trade_offers := trade_offers w @ [row],
                    trade_offers_id_seq := trade_offers_id_seq w + 1,
                    trace := trace w @ [SqlWrite row] \<rparr>))"

text \<open>
  \<open>UPDATE trade_offers SET status = .., updated_at = .. WHERE id = .. RETURNING *\<close>:
  the \<open>WHERE\<close> clause names the id alone.
\<close>

definition set_status :: "offer_status \<Rightarrow> int \<Rightarrow> offer_row \<Rightarrow> offer_row" where
  "set_status st now offer = offer\<lparr> status := st, updated_at := now \<rparr>"

definition update_offer ::
  "world \<Rightarrow> int \<Rightarrow> offer_status \<Rightarrow> int \<Rightarrow> offer_row list \<times> world" where
  "update_offer w offerId st now =
     (let rows = map (\<lambda>offer. if offer_id offer = offerId then set_status st now offer else offer)
                     (trade_offers w);
          returning = filter (\<lambda>offer. offer_id offer = offerId) rows
      in (returning,
          w\<lparr> trade_offers := rows, trace := trace w @ map SqlWrite returning \<rparr>))"

subsection \<open>The producer (\<open>kafka-producer.ts\<close>)\<close>

text \<open>
  \<open>publishEmailEvent\<close> returns nothing and throws nothing: the promise of
  \<open>producer.send\<close> is left to itself, and its rejection ends in \<open>console.error\<close>.
\<close>

definition publishEmailEvent :: "env \<Rightarrow> string \<Rightarrow> string \<Rightarrow> string \<Rightarrow> world \<Rightarrow> world" where
  "publishEmailEvent e to subject body w =
     (let event = \<lparr> ev_type = ''email.send'',
                    ev_id = event_ids e (id_calls w),
                    ev_timestamp = clock e,
                    ev_to = to,
                    ev_subject = subject,
                    ev_body = body \<rparr>;
          message = \<lparr> msg_key = to,
                      msg_value = event,
                      correlation_id = event_ids e (id_calls w + 1) \<rparr>;
          w1 = w\<lparr> id_calls := id_calls w + 2, trace := trace w @ [ProducerSend message] \<rparr>
      in if broker e message then w1
         else w1\<lparr> trace := trace w1 @ [ConsoleError (''Failed to publish email event to '' @ to)] \<rparr>)"

definition offer_context ::
  "user_row \<Rightarrow> user_row \<Rightarrow> string \<Rightarrow> int \<Rightarrow> string \<Rightarrow> int \<Rightarrow> (string \<times> json) list" where
  "offer_context offerer recipient offeredName offeredYear requestedName requestedYear =
     [(''offererName'', JStr (user_name offerer)),
      (''recipientName'', JStr (user_name recipient)),
      (''offeredGameName'', JStr offeredName),
      (''offeredGameYear'', JNum offeredYear),
      (''requestedGameName'', JStr requestedName),
      (''requestedGameYear'', JNum requestedYear)]"

subsection \<open>\<open>POST /offers\<close>\<close>

text \<open>
  The whole body after the authentication gate is in one \<open>try\<close>; whatever is thrown
  there (\<open>req.json()\<close> on a body that is not JSON, a failing statement) is answered
  with \<open>400 Invalid input\<close>.
\<close>

definition POST_offers :: "env \<Rightarrow> request \<Rightarrow> world \<Rightarrow> response \<times> world" where
  "POST_offers e req w =
     (case requireAuth e req of
        Inl authResult \<Rightarrow> (authResult, w)
      | Inr authenticatedUserId \<Rightarrow>
     (case json_body req of
        None \<Rightarrow> (errorResponse 400 ''Invalid input'', w)
      | Some body \<Rightarrow>
     (case TradeOfferInputSchema body of
        Failure message \<Rightarrow> (errorResponse 400 message, w)
      | Success (requestedGameId, offeredGameId) \<Rightarrow>
     (case select_game w requestedGameId of
        [] \<Rightarrow> (errorResponse 404 ''Requested game not found'', w)
      | requestedGame # _ \<Rightarrow>
     (case select_game w offeredGameId of
        [] \<Rightarrow> (errorResponse 404 ''Offered game not found'', w)
      | offeredGame # _ \<Rightarrow>
     if owner_id offeredGame \<noteq> authenticatedUserId
     then (errorResponse 403 ''Forbidden: You can only offer games you own'', w)
     else if owner_id requestedGame = authenticatedUserId
     then (errorResponse 400 ''Cannot create trade offer for your own game'', w)
     else
     (case insert_offer w requestedGameId offeredGameId authenticatedUserId
             (owner_id requestedGame) (clock e) of
        None \<Rightarrow> (errorResponse 400 ''Invalid input'', w)
      | Some ([], w1) \<Rightarrow> (errorResponse 400 ''Invalid input'', w1)
      | Some (offer # _, w1) \<Rightarrow>
          let offerers = select_user w1 (offerer_id offer);
              recipients = select_user w1 (recipient_id offer);
              w2 = (case (offerers, recipients) of
                      (offerer # _, recipient # _) \<Rightarrow>
                        let ctx = offer_context offerer recipient
                                    (game_name offeredGame) (game_year offeredGame)
                                    (game_name requestedGame) (game_year requestedGame)
                        in publishEmailEvent e (user_email offerer)
                             ''Your trade offer has been sent!''
                             (handlebars e offerCreatedConfirmationTemplate ctx)
                             (publishEmailEvent e (user_email recipient)
                                ''You've received a trade offer!''
                                (handlebars e offerReceivedTemplate ctx) w1)
                    | _ \<Rightarrow> w1)
          in (OfferResponse 201 (formatTradeOfferResponse offer), w2)))))))"

subsection \<open>\<open>PATCH /offers/:id\<close>\<close>

text \<open>
  The handler reads the offer with one statement and writes it with another, with
  \<open>await\<close>s in between. \<open>patch_read\<close> is the part up to the validated body: it only
  reads. \<open>patch_write\<close> is the rest, from the \<open>UPDATE\<close> on. The path parameter is taken
  as the integer \<open>parseInt\<close> made of it.
\<close>

definition patch_read :: "env \<Rightarrow> request \<Rightarrow> int \<Rightarrow> world \<Rightarrow> response + offer_status" where
  "patch_read e req offerId w =
     (case requireAuth e req of
        Inl authResult \<Rightarrow> Inl authResult
      | Inr authenticatedUserId \<Rightarrow>
     (case select_offer w offerId of
        [] \<Rightarrow> Inl (errorResponse 404 ''Trade offer not found'')
      | offer # _ \<Rightarrow>
     if recipient_id offer \<noteq> authenticatedUserId
     then Inl (errorResponse 403 ''Forbidden: Only the recipient can update this offer'')
     else if status offer \<noteq> Pending
     then Inl (errorResponse 400 ''Only pending offers can be updated'')
     else
     (case json_body req of
        None \<Rightarrow> Inl (errorResponse 400 ''Invalid input'')
      | Some body \<Rightarrow>
     (case TradeOfferUpdateSchema body of
        Failure message \<Rightarrow> Inl (errorResponse 400 message)
      | Success st \<Rightarrow> Inr st))))"

definition status_emails ::
  "env \<Rightarrow> template \<Rightarrow> string \<Rightarrow> template \<Rightarrow> string \<Rightarrow> offer_row \<Rightarrow> world \<Rightarrow> world" where
  "status_emails e toOfferer offererSubject toRecipient recipientSubject updatedOffer w =
     (case (select_user w (offerer_id updatedOffer),
            select_user w (recipient_id updatedOffer),
            select_game w (requested_game_id updatedOffer),
            select_game w (offered_game_id updatedOffer)) of
        (offerer # _, recipient # _, requestedGame # _, offeredGame # _) \<Rightarrow>
          let ctx = offer_context offerer recipient
                      (game_name offeredGame) (game_year offeredGame)
                      (game_name requestedGame) (game_year requestedGame)
          in publishEmailEvent e (user_email recipient) recipientSubject
               (handlebars e toRecipient ctx)
               (publishEmailEvent e (user_email offerer) offererSubject
                  (handlebars e toOfferer ctx) w)
      | _ \<Rightarrow> w)"

definition patch_write :: "env \<Rightarrow> int \<Rightarrow> offer_status \<Rightarrow> world \<Rightarrow> response \<times> world" where
  "patch_write e offerId st w =
     (case update_offer w offerId st (clock e) of
        ([], w1) \<Rightarrow> (errorResponse 400 ''Invalid input'', w1)
      | (updatedOffer # _, w1) \<Rightarrow>
          let w2 = (if status updatedOffer = Accepted
                    then status_emails e
                           offerAcceptedTemplate ''Your trade offer was accepted!''
                           offerAcceptedRecipientTemplate ''You accepted a trade offer!''
                           updatedOffer w1
                    else if status updatedOffer = Rejected
                    then status_emails e
                           offerRejectedTemplate ''Your trade offer was declined''
                           offerRejectedRecipientTemplate ''You declined a trade offer''
                           updatedOffer w1
                    else w1)
          in (OfferResponse 200 (formatTradeOfferResponse updatedOffer), w2))"

definition PATCH_offers_id :: "env \<Rightarrow> request \<Rightarrow> int \<Rightarrow> world \<Rightarrow> response \<times> world" where
  "PATCH_offers_id e req offerId w =
     (case patch_read e req offerId w of
        Inl resp \<Rightarrow> (resp, w)
      | Inr st \<Rightarrow> patch_write e offerId st w)"

subsection \<open>\<open>GET /offers\<close> and \<open>GET /offers/:id\<close>\<close>

record offers_query =
  statusParam :: "string option"
  offererIdParam :: "int option"
  recipientIdParam :: "int option"

text \<open>
  \<open>ORDER BY created_at DESC\<close>; rows of equal \<open>created_at\<close> stay in table order here,
  where SQL leaves their order open.
\<close>

definition GET_offers :: "env \<Rightarrow> request \<Rightarrow> offers_query \<Rightarrow> world \<Rightarrow> response \<times> world" where
  "GET_offers e req q w =
     (case requireAuth e req of
        Inl authResult \<Rightarrow> (authResult, w)
      | Inr _ \<Rightarrow>
          let offers = filter (\<lambda>offer.
                  (statusParam q = None \<or> Some (status_text (status offer)) = statusParam q)
                \<and> (offererIdParam q = None \<or> Some (offerer_id offer) = offererIdParam q)
                \<and> (recipientIdParam q = None \<or> Some (recipient_id offer) = recipientIdParam q))
                (trade_offers w)
          in (OffersResponse (map formatTradeOfferResponse
                (sort_key (\<lambda>offer. - created_at offer) offers)), w))"

definition GET_offers_id :: "env \<Rightarrow> request \<Rightarrow> int \<Rightarrow> world \<Rightarrow> response \<times> world" where
  "GET_offers_id e req offerId w =
     (case requireAuth e req of
        Inl authResult \<Rightarrow> (authResult, w)
      | Inr _ \<Rightarrow>
     (case select_offer w offerId of
        [] \<Rightarrow> (errorResponse 404 ''Trade offer not found'', w)
      | offer # _ \<Rightarrow> (OfferResponse 200 (formatTradeOfferResponse offer), w)))"

subsection \<open>Requests in flight\<close>

text \<open>
  Requests are served concurrently: between two \<open>await\<close>s of one handler, another
  handler may run. A \<open>PATCH\<close> in flight is either still to read the offer, or has its
  validated status and is about to write, or has answered. A schedule names, step by step,
  which request runs next.
\<close>

datatype patch_task =
    Arrived env request int
  | Validated env int offer_status
  | Answered response

fun patch_step :: "patch_task \<Rightarrow> world \<Rightarrow> patch_task \<times> world" where
  "patch_step (Arrived e req offerId) w =
     (case patch_read e req offerId w of
        Inl resp \<Rightarrow> (Answered resp, w)
      | Inr st \<Rightarrow> (Validated e offerId st, w))"
| "patch_step (Validated e offerId st) w =
     (case patch_write e offerId st w of (resp, w1) \<Rightarrow> (Answered resp, w1))"
| "patch_step (Answered resp) w = (Answered resp, w)"

fun interleave :: "nat list \<Rightarrow> patch_task list \<times> world \<Rightarrow> patch_task list \<times> world" where
  "interleave [] c = c"
| "interleave (i # schedule) (tasks, w) =
     (if i < length tasks
      then (case patch_step (tasks ! i) w of
              (t, w1) \<Rightarrow> interleave schedule (tasks[i := t], w1))
      else interleave schedule (tasks, w))"

fun answer :: "patch_task \<Rightarrow> response option" where
  "answer (Answered resp) = Some resp"
| "answer _ = None"

subsection \<open>Reading the tables and the trace\<close>

text \<open>\<open>SELECT status FROM trade_offers WHERE id = ..\<close>, first row.\<close>

definition status_of :: "world \<Rightarrow> int \<Rightarrow> offer_status option" where
  "status_of w i = (case select_offer w i of [] \<Rightarrow> None | offer # _ \<Rightarrow> Some (status offer))"

text \<open>The edges of the status machine: out of pending, into accepted or rejected.\<close>

definition edge :: "offer_status \<Rightarrow> offer_status \<Rightarrow> bool" where
  "edge s t \<longleftrightarrow> s = Pending \<and> (t = Accepted \<or> t = Rejected)"

definition recipient_of :: "world \<Rightarrow> int \<Rightarrow> int option" where
  "recipient_of w i =
     (case select_offer w i of [] \<Rightarrow> None | offer # _ \<Rightarrow> Some (recipient_id offer))"

text \<open>\<open>SELECT owner_id FROM games WHERE id = ..\<close>, first row.\<close>

definition owner_of :: "world \<Rightarrow> int \<Rightarrow> int option" where
  "owner_of w i = (case select_game w i of [] \<Rightarrow> None | g # _ \<Rightarrow> Some (owner_id g))"

text \<open>\<open>SELECT email FROM users WHERE id = ..\<close>, first row.\<close>

definition email_of :: "world \<Rightarrow> int \<Rightarrow> string option" where
  "email_of w i = (case select_user w i of [] \<Rightarrow> None | u # _ \<Rightarrow> Some (user_email u))"

text \<open>The messages handed to the producer, in order, among some effects.\<close>

fun sends :: "effect list \<Rightarrow> kafka_message list" where
  "sends [] = []"
| "sends (ProducerSend m # fx) = m # sends fx"
| "sends (_ # fx) = sends fx"

text \<open>What a handler added to the trace on the way from \<open>w\<close> to \<open>w1\<close>.\<close>

definition added :: "world \<Rightarrow> world \<Rightarrow> effect list" where
  "added w w1 = drop (length (trace w)) (trace w1)"

text \<open>The addresses (\<open>to\<close>) of the events among some effects, in order.\<close>

definition addressees :: "effect list \<Rightarrow> string list" where
  "addressees fx = map (\<lambda>m. ev_to (msg_value m)) (sends fx)"

text \<open>What the database holds, apart from the trace and the id counter of the producer.\<close>

definition stored :: "world \<Rightarrow> user_row list \<times> game_row list \<times> offer_row list \<times> int" where
  "stored w = (users w, games w, trade_offers w, trade_offers_id_seq w)"

text \<open>
  Among some effects in program order: if anything is handed to the producer, a row has
  been written, and no row is written from the first hand-over on.
\<close>

definition commit_precedes_emission :: "effect list \<Rightarrow> bool" where
  "commit_precedes_emission fx \<longleftrightarrow>
     sends fx = []
   \<or> (filter is_write fx \<noteq> []
      \<and> filter is_write (dropWhile (\<lambda>x. \<not> is_send x) fx) = [])"

subsection \<open>Constraints declared on the tables\<close>

text \<open>
  The \<open>PRIMARY KEY\<close>s, the \<open>SERIAL\<close> sequence of \<open>trade_offers\<close> (never behind
  an id it has given out) and the \<open>FOREIGN KEY\<close>s of \<open>games\<close> and
  \<open>trade_offers\<close>.
\<close>

definition constraints :: "world \<Rightarrow> bool" where
  "constraints w \<longleftrightarrow>
     distinct (map offer_id (trade_offers w))
   \<and> (\<forall>offer \<in> set (trade_offers w). offer_id offer \<le> trade_offers_id_seq w)
   \<and> (\<forall>g \<in> set (games w). select_user w (owner_id g) \<noteq> [])
   \<and> (\<forall>offer \<in> set (trade_offers w).
          select_game w (requested_game_id offer) \<noteq> []
        \<and> select_game w (offered_game_id offer) \<noteq> []
        \<and> select_user w (offerer_id offer) \<noteq> []
        \<and> select_user w (recipient_id offer) \<noteq> [])"

section \<open>The notification consumer (\<open>email-consumer/index.ts\<close>)\<close>










section \<open>A small instance\<close>

text \<open>
  Alice owns Zelda, Bob owns Metroid, Carol owns nothing; a token is the lower-case name
  of its user.
\<close>

definition alice :: user_row where
  "alice = \<lparr> user_id = 1, user_name = ''Alice'', user_email = ''alice@example.com'' \<rparr>"

definition bob :: user_row where
  "bob = \<lparr> user_id = 2, user_name = ''Bob'', user_email = ''bob@example.com'' \<rparr>"

definition carol :: user_row where
  "carol = \<lparr> user_id = 3, user_name = ''Carol'', user_email = ''carol@example.com'' \<rparr>"

definition zelda :: game_row where
  "zelda = \<lparr> game_id = 1, game_name = ''Zelda'', game_year = 1986, owner_id = 1 \<rparr>"

definition metroid :: game_row where
  "metroid = \<lparr> game_id = 2, game_name = ''Metroid'', game_year = 1986, owner_id = 2 \<rparr>"

definition world0 :: world where
  "world0 = \<lparr> users = [alice, bob, carol], games = [zelda, metroid], trade_offers = [],
              trade_offers_id_seq = 0, id_calls = 0, trace = [] \<rparr>"

fun token_user :: "string \<Rightarrow> int option" where
  "token_user t =
     (if t = ''alice'' then Some 1 else if t = ''bob'' then Some 2
      else if t = ''carol'' then Some 3 else None)"

fun numbered_id :: "nat \<Rightarrow> string" where
  "numbered_id n = replicate n CHR ''i''"

fun broker_up :: "kafka_message \<Rightarrow> bool" where
  "broker_up m = True"

fun broker_down :: "kafka_message \<Rightarrow> bool" where
  "broker_down m = False"

fun template_name :: "template \<Rightarrow> (string \<times> json) list \<Rightarrow> string" where
  "template_name offerReceivedTemplate ctx = ''offer received''"
| "template_name offerCreatedConfirmationTemplate ctx = ''offer sent''"
| "template_name offerAcceptedTemplate ctx = ''offer accepted''"
| "template_name offerAcceptedRecipientTemplate ctx = ''you accepted''"
| "template_name offerRejectedTemplate ctx = ''offer rejected''"
| "template_name offerRejectedRecipientTemplate ctx = ''you rejected''"

definition env0 :: env where
  "env0 = \<lparr> jwt_verify = token_user, clock = 1000, event_ids = numbered_id,
            broker = broker_up, handlebars = template_name \<rparr>"

definition env1 :: env where
  "env1 = \<lparr> jwt_verify = token_user, clock = 2000, event_ids = numbered_id,
            broker = broker_down, handlebars = template_name \<rparr>"

definition as_user :: "string \<Rightarrow> json \<Rightarrow> request" where
  "as_user t body = \<lparr> authorization = Some (''Bearer '' @ t), json_body = Some body \<rparr>"

definition offer_zelda_for_metroid :: json where
  "offer_zelda_for_metroid = JObj [(''requestedGameId'', JNum 2), (''offeredGameId'', JNum 1)]"

definition accept :: json where
  "accept = JObj [(''status'', JStr ''accepted'')]"

definition reject :: json where
  "reject = JObj [(''status'', JStr ''rejected'')]"

definition offer_zelda_for_zelda :: json where
  "offer_zelda_for_zelda = JObj [(''requestedGameId'', JNum 1), (''offeredGameId'', JNum 1)]"

definition anonymous :: request where
  "anonymous = \<lparr> authorization = None, json_body = Some accept \<rparr>"

definition any_offers :: offers_query where
  "any_offers = \<lparr> statusParam = None, offererIdParam = None, recipientIdParam = None \<rparr>"

text \<open>The world once Alice has offered Zelda for Metroid.\<close>

definition world1 :: world where
  "world1 = snd (POST_offers env0 (as_user ''alice'' offer_zelda_for_metroid) world0)"

definition offer1 :: offer_row where
  "offer1 = \<lparr> offer_id = 1, requested_game_id = 2, offered_game_id = 1,
              offerer_id = 1, recipient_id = 2, status = Pending,
              created_at = 1000, updated_at = 1000 \<rparr>"








text \<open>Bob's two answers to offer 1, in flight together.\<close>

definition race :: "patch_task list" where
  "race = [Arrived env0 (as_user ''bob'' accept) 1, Arrived env1 (as_user ''bob'' reject) 1]"

section \<open>Properties\<close>

subsection \<open>The statements leave what they do not name alone\<close>

lemma set_status_id [simp]: "offer_id (set_status st n offer) = offer_id offer"
  by (simp add: set_status_def)

lemma update_rows_filter:
  "filter (\<lambda>offer. offer_id offer = i)
     (map (\<lambda>offer. if offer_id offer = i then set_status st n offer else offer) xs)
   = map (set_status st n) (filter (\<lambda>offer. offer_id offer = i) xs)"
  by (induction xs) auto

lemma update_rows_none:
  "filter (\<lambda>offer. offer_id offer = i) xs = [] \<Longrightarrow>
   map (\<lambda>offer. if offer_id offer = i then set_status st n offer else offer) xs = xs"
  by (induction xs) (auto split: if_splits)

lemma update_offer_returning:
  "fst (update_offer w i st n) = map (set_status st n) (select_offer w i)"
  by (simp add: update_offer_def select_offer_def Let_def update_rows_filter)

lemma update_offer_nothing:
  "select_offer w i = [] \<Longrightarrow> update_offer w i st n = ([], w)"
  by (simp add: update_offer_def select_offer_def Let_def update_rows_filter update_rows_none)

subsection \<open>An error response comes with an untouched world\<close>

lemma POST_offers_error_unchanged:
  "fst (POST_offers e req w) = ErrorResponse c m \<Longrightarrow> snd (POST_offers e req w) = w"
  unfolding POST_offers_def
  by (auto split: sum.splits option.splits safe_parse.splits list.splits prod.splits if_splits
           simp: errorResponse_def insert_offer_def Let_def)

lemma patch_write_error_unchanged:
  "fst (patch_write e i st w) = ErrorResponse c m \<Longrightarrow> snd (patch_write e i st w) = w"
proof (cases "select_offer w i")
  case Nil
  then show ?thesis by (simp add: patch_write_def update_offer_nothing)
next
  case (Cons offer rest)
  assume err: "fst (patch_write e i st w) = ErrorResponse c m"
  obtain rows w1 where u: "update_offer w i st (clock e) = (rows, w1)"
    by (cases "update_offer w i st (clock e)")
  with Cons have "rows = set_status st (clock e) offer # map (set_status st (clock e)) rest"
    using update_offer_returning [of w i st "clock e"] by simp
  with u err show ?thesis
    by (simp add: patch_write_def Let_def)
qed

lemma PATCH_offers_id_error_unchanged:
  "fst (PATCH_offers_id e req i w) = ErrorResponse c m \<Longrightarrow> snd (PATCH_offers_id e req i w) = w"
  unfolding PATCH_offers_id_def
  by (auto split: sum.splits dest: patch_write_error_unchanged)

subsection \<open>The authentication gate\<close>

lemma requireAuth_unauthorized:
  "authenticate e req = None \<Longrightarrow>
   requireAuth e req = Inl (ErrorResponse 401 ''Unauthorized: Please login first'')"
  by (simp add: requireAuth_def errorResponse_def)

text \<open>
  C10. Each of the four offer routes starts at \<open>requireAuth\<close>. A request with no
  \<open>Authorization\<close> header, with one that is not a bearer token, or with a token that
  \<open>jwt.verify\<close> refuses, is answered \<open>401\<close> by all four, and the world comes back
  as it was: no row written, nothing handed to the producer.
\<close>

theorem unauthenticated_request_is_turned_away:
  assumes "authorization req = None
         \<or> (\<exists>h. authorization req = Some h
                \<and> (take 7 h \<noteq> ''Bearer '' \<or> jwt_verify e (drop 7 h) = None))"
  shows "POST_offers e req w = (ErrorResponse 401 ''Unauthorized: Please login first'', w)
       \<and> PATCH_offers_id e req offerId w = (ErrorResponse 401 ''Unauthorized: Please login first'', w)
       \<and> GET_offers e req q w = (ErrorResponse 401 ''Unauthorized: Please login first'', w)
       \<and> GET_offers_id e req offerId w = (ErrorResponse 401 ''Unauthorized: Please login first'', w)"
proof -
  from assms have "authenticate e req = None"
    by (auto simp: authenticate_def)
  then have "requireAuth e req = Inl (ErrorResponse 401 ''Unauthorized: Please login first'')"
    by (rule requireAuth_unauthorized)
  then show ?thesis
    by (simp add: POST_offers_def PATCH_offers_id_def patch_read_def GET_offers_def GET_offers_id_def)
qed

theorem unauthenticated_request_witness:
  "authorization anonymous = None
 \<and> POST_offers env0 anonymous world1 = (ErrorResponse 401 ''Unauthorized: Please login first'', world1)
 \<and> PATCH_offers_id env0 anonymous 1 world1 = (ErrorResponse 401 ''Unauthorized: Please login first'', world1)
 \<and> GET_offers env0 anonymous any_offers world1 = (ErrorResponse 401 ''Unauthorized: Please login first'', world1)
 \<and> GET_offers_id env0 anonymous 1 world1 = (ErrorResponse 401 ''Unauthorized: Please login first'', world1)"
proof -
  have h: "authorization anonymous = None" by (simp add: anonymous_def)
  then show ?thesis
    using unauthenticated_request_is_turned_away [of anonymous env0 world1 1 any_offers] by simp
qed

subsection \<open>Creating an offer\<close>

lemma insert_offer_succeeds:
  assumes "select_game w r \<noteq> []" "select_game w g \<noteq> []"
      and "select_user w a \<noteq> []" "select_user w b \<noteq> []"
  shows "insert_offer w r g a b n =
     Some ([\<lparr> offer_id = trade_offers_id_seq w + 1, requested_game_id = r, offered_game_id = g,
               offerer_id = a, recipient_id = b, status = Pending, created_at = n, updated_at = n \<rparr>],
           w\<lparr> trade_offers := trade_offers w @
                  [\<lparr> offer_id = trade_offers_id_seq w + 1, requested_game_id = r, offered_game_id = g,
                     offerer_id = a, recipient_id = b, status = Pending, created_at = n, updated_at = n \<rparr>],
              trade_offers_id_seq := trade_offers_id_seq w + 1,
              trace := trace w @
                  [SqlWrite \<lparr> offer_id = trade_offers_id_seq w + 1, requested_game_id = r, offered_game_id = g,
                     offerer_id = a, recipient_id = b, status = Pending, created_at = n, updated_at = n \<rparr>] \<rparr>)"
  using assms by (simp add: insert_offer_def Let_def)

lemma select_game_member:
  "select_game w i = g # rest \<Longrightarrow> g \<in> set (games w) \<and> game_id g = i"
  by (metis (mono_tags, lifting) filter_eq_ConsD in_set_conv_decomp select_game_def)

lemma owner_exists:
  "constraints w \<Longrightarrow> select_game w i = g # rest \<Longrightarrow> select_user w (owner_id g) \<noteq> []"
  using select_game_member [of w i g rest] by (simp add: constraints_def)

lemma publish_tables [simp]:
  "users (publishEmailEvent e t s b w) = users w"
  "games (publishEmailEvent e t s b w) = games w"
  "trade_offers (publishEmailEvent e t s b w) = trade_offers w"
  "trade_offers_id_seq (publishEmailEvent e t s b w) = trade_offers_id_seq w"
  by (simp_all add: publishEmailEvent_def Let_def)

lemma publish_selects [simp]:
  "select_user (publishEmailEvent e t s b w) = select_user w"
  "select_game (publishEmailEvent e t s b w) = select_game w"
  "select_offer (publishEmailEvent e t s b w) = select_offer w"
  by (simp_all add: select_user_def select_game_def select_offer_def fun_eq_iff
        publishEmailEvent_def Let_def)

lemma status_emails_selects [simp]:
  "select_user (status_emails e t1 s1 t2 s2 offer w) = select_user w"
  "select_game (status_emails e t1 s1 t2 s2 offer w) = select_game w"
  "select_offer (status_emails e t1 s1 t2 s2 offer w) = select_offer w"
  by (simp_all add: status_emails_def Let_def split: list.splits prod.splits)

text \<open>
  C5. \<open>CreateOffer(actorId, requestedItemId, offeredItemId)\<close> is \<open>POST /offers\<close> by the
  authenticated \<open>actorId\<close> with a body naming the two items. If either item is missing
  the answer is \<open>404\<close> (\<open>NotFound\<close>); otherwise if the offered item is not the
  actor's it is \<open>403\<close> (\<open>Forbidden\<close>); otherwise if the requested item is the actor's
  own it is \<open>400\<close> (\<open>InvalidRequest\<close>); otherwise the answer is \<open>201\<close> and a new row
  is stored with status pending, the actor as offerer and the owner of the requested item
  as recipient. The table constraints are what lets the \<open>INSERT\<close> go through.
\<close>

theorem create_offer_outcomes:
  assumes auth: "requireAuth e req = Inr actorId"
      and body: "json_body req = Some body"
      and ids: "TradeOfferInputSchema body = Success (requestedItemId, offeredItemId)"
      and ok: "constraints w"
  shows "(owner_of w requestedItemId = None \<or> owner_of w offeredItemId = None \<longrightarrow>
            (\<exists>m. POST_offers e req w = (ErrorResponse 404 m, w)))
       \<and> (\<forall>requestedOwner offeredOwner.
            owner_of w requestedItemId = Some requestedOwner
          \<and> owner_of w offeredItemId = Some offeredOwner \<longrightarrow>
            (offeredOwner \<noteq> actorId \<longrightarrow>
               POST_offers e req w =
                 (ErrorResponse 403 ''Forbidden: You can only offer games you own'', w))
          \<and> (offeredOwner = actorId \<and> requestedOwner = actorId \<longrightarrow>
               POST_offers e req w =
                 (ErrorResponse 400 ''Cannot create trade offer for your own game'', w))
          \<and> (offeredOwner = actorId \<and> requestedOwner \<noteq> actorId \<longrightarrow>
               (\<exists>offer. fst (POST_offers e req w) = OfferResponse 201 (formatTradeOfferResponse offer)
                  \<and> trade_offers (snd (POST_offers e req w)) = trade_offers w @ [offer]
                  \<and> status offer = Pending
                  \<and> offerer_id offer = actorId
                  \<and> recipient_id offer = requestedOwner
                  \<and> requested_game_id offer = requestedItemId
                  \<and> offered_game_id offer = offeredItemId)))"
proof (intro conjI impI allI)
  assume "owner_of w requestedItemId = None \<or> owner_of w offeredItemId = None"
  then show "\<exists>m. POST_offers e req w = (ErrorResponse 404 m, w)"
    using auth body ids
    by (auto simp: POST_offers_def owner_of_def errorResponse_def split: list.splits)
next
  fix requestedOwner offeredOwner
  assume o: "owner_of w requestedItemId = Some requestedOwner
           \<and> owner_of w offeredItemId = Some offeredOwner"
  { assume "offeredOwner \<noteq> actorId"
    with o show "POST_offers e req w =
       (ErrorResponse 403 ''Forbidden: You can only offer games you own'', w)"
      using auth body ids
      by (auto simp: POST_offers_def owner_of_def errorResponse_def split: list.splits) }
  { assume "offeredOwner = actorId \<and> requestedOwner = actorId"
    with o show "POST_offers e req w =
       (ErrorResponse 400 ''Cannot create trade offer for your own game'', w)"
      using auth body ids
      by (auto simp: POST_offers_def owner_of_def errorResponse_def split: list.splits) }
  { assume own: "offeredOwner = actorId \<and> requestedOwner \<noteq> actorId"
    from o obtain rg rrest og orest where
      rg: "select_game w requestedItemId = rg # rrest" "owner_id rg = requestedOwner" and
      og: "select_game w offeredItemId = og # orest" "owner_id og = offeredOwner"
      by (auto simp: owner_of_def split: list.splits)
    have u1: "select_user w actorId \<noteq> []"
      using owner_exists [OF ok og(1)] og(2) own by simp
    have u2: "select_user w requestedOwner \<noteq> []"
      using owner_exists [OF ok rg(1)] rg(2) by simp
    let ?row = "\<lparr> offer_id = trade_offers_id_seq w + 1, requested_game_id = requestedItemId,
                   offered_game_id = offeredItemId, offerer_id = actorId,
                   recipient_id = requestedOwner, status = Pending,
                   created_at = clock e, updated_at = clock e \<rparr>"
    have ins: "insert_offer w requestedItemId offeredItemId actorId requestedOwner (clock e) =
       Some ([?row], w\<lparr> trade_offers := trade_offers w @ [?row],
                        trade_offers_id_seq := trade_offers_id_seq w + 1,
                        trace := trace w @ [SqlWrite ?row] \<rparr>)"
      using rg(1) og(1) u1 u2 by (intro insert_offer_succeeds) simp_all
    have "fst (POST_offers e req w) = OfferResponse 201 (formatTradeOfferResponse ?row)
        \<and> trade_offers (snd (POST_offers e req w)) = trade_offers w @ [?row]"
      using auth body ids rg og own ins
      by (simp add: POST_offers_def Let_def split: list.splits)
    then show "\<exists>offer. fst (POST_offers e req w) = OfferResponse 201 (formatTradeOfferResponse offer)
                  \<and> trade_offers (snd (POST_offers e req w)) = trade_offers w @ [offer]
                  \<and> status offer = Pending
                  \<and> offerer_id offer = actorId
                  \<and> recipient_id offer = requestedOwner
                  \<and> requested_game_id offer = requestedItemId
                  \<and> offered_game_id offer = offeredItemId"
      by (intro exI [of _ ?row]) simp }
qed

lemma world0_facts:
  "requireAuth env0 (as_user ''alice'' offer_zelda_for_metroid) = Inr 1"
  "json_body (as_user ''alice'' offer_zelda_for_metroid) = Some offer_zelda_for_metroid"
  "TradeOfferInputSchema offer_zelda_for_metroid = Success (2, 1)"
  "constraints world0"
  "owner_of world0 2 = Some 2"
  "owner_of world0 1 = Some 1"
  by (simp_all add: requireAuth_def authenticate_def env0_def as_user_def
        offer_zelda_for_metroid_def TradeOfferInputSchema_def constraints_def world0_def
        select_user_def select_game_def owner_of_def alice_def bob_def carol_def zelda_def metroid_def)

theorem create_offer_witness:
  "requireAuth env0 (as_user ''alice'' offer_zelda_for_metroid) = Inr 1
 \<and> json_body (as_user ''alice'' offer_zelda_for_metroid) = Some offer_zelda_for_metroid
 \<and> TradeOfferInputSchema offer_zelda_for_metroid = Success (2, 1)
 \<and> constraints world0
 \<and> owner_of world0 2 = Some 2 \<and> owner_of world0 1 = Some 1
 \<and> (\<exists>offer. fst (POST_offers env0 (as_user ''alice'' offer_zelda_for_metroid) world0)
                = OfferResponse 201 (formatTradeOfferResponse offer)
            \<and> trade_offers (snd (POST_offers env0 (as_user ''alice'' offer_zelda_for_metroid) world0))
                = trade_offers world0 @ [offer]
            \<and> status offer = Pending \<and> offerer_id offer = 1 \<and> recipient_id offer = 2
            \<and> requested_game_id offer = 2 \<and> offered_game_id offer = 1)"
  using create_offer_outcomes [OF world0_facts(1) world0_facts(2) world0_facts(3) world0_facts(4)]
        world0_facts
  by simp

subsection \<open>Updating the status of an offer\<close>

lemma world1_facts:
  "trade_offers world1 = [offer1]"
  "users world1 = [alice, bob, carol]"
  "games world1 = [zelda, metroid]"
  "constraints world1"
  "requireAuth env0 (as_user ''bob'' accept) = Inr 2"
  "requireAuth env0 (as_user ''carol'' accept) = Inr 3"
  "select_offer world1 1 = [offer1]"
  by code_simp+

lemma schema_status:
  "TradeOfferUpdateSchema body = Success st \<Longrightarrow> st = Accepted \<or> st = Rejected"
  by (auto simp: TradeOfferUpdateSchema_def split: option.splits json.splits if_splits)

lemma select_offer_after_update:
  "select_offer (snd (update_offer w i st n)) j =
     (if j = i then map (set_status st n) (select_offer w i) else select_offer w j)"
proof -
  have "filter (\<lambda>offer. offer_id offer = j)
          (map (\<lambda>offer. if offer_id offer = i then set_status st n offer else offer) xs)
        = (if j = i then map (set_status st n) (filter (\<lambda>offer. offer_id offer = i) xs)
           else filter (\<lambda>offer. offer_id offer = j) xs)" for xs
    by (induction xs) auto
  then show ?thesis
    by (simp add: update_offer_def select_offer_def Let_def)
qed

lemma patch_write_result:
  assumes "select_offer w i = offer # rest"
  shows "fst (patch_write e i st w) =
           OfferResponse 200 (formatTradeOfferResponse (set_status st (clock e) offer))"
    and "select_offer (snd (patch_write e i st w)) j =
           (if j = i then map (set_status st (clock e)) (offer # rest) else select_offer w j)"
proof -
  obtain rows w1 where u: "update_offer w i st (clock e) = (rows, w1)"
    by (cases "update_offer w i st (clock e)")
  have rows: "rows = set_status st (clock e) offer # map (set_status st (clock e)) rest"
    using update_offer_returning [of w i st "clock e"] u assms by simp
  have w1: "select_offer w1 j =
           (if j = i then map (set_status st (clock e)) (offer # rest) else select_offer w j)"
    using select_offer_after_update [of w i st "clock e" j] u assms by simp
  show "fst (patch_write e i st w) =
           OfferResponse 200 (formatTradeOfferResponse (set_status st (clock e) offer))"
    using u rows by (simp add: patch_write_def Let_def)
  show "select_offer (snd (patch_write e i st w)) j =
           (if j = i then map (set_status st (clock e)) (offer # rest) else select_offer w j)"
    using u rows w1 by (cases "j = i") (simp_all add: patch_write_def Let_def)
qed

text \<open>
  C6. \<open>UpdateStatus(actorId, offerId, newStatus)\<close> is \<open>PATCH /offers/:id\<close> by the
  authenticated \<open>actorId\<close>. If no offer has the id the answer is \<open>404\<close>
  (\<open>NotFound\<close>); otherwise if the actor is not the stored recipient it is \<open>403\<close>
  (\<open>Forbidden\<close>); otherwise if the stored status is not pending it is
  \<open>400 Only pending offers can be updated\<close> (\<open>InvalidState\<close>); otherwise if the body
  is not JSON or its status is neither accepted nor rejected it is \<open>400\<close>
  (\<open>InvalidRequest\<close>); otherwise the answer is \<open>200\<close> with the offer at its new
  status, and the stored offer has the new status and \<open>updated_at\<close> at the time of
  the request.
\<close>

theorem update_status_outcomes:
  assumes auth: "requireAuth e req = Inr actorId"
  shows "(select_offer w offerId = [] \<longrightarrow>
            PATCH_offers_id e req offerId w = (ErrorResponse 404 ''Trade offer not found'', w))
       \<and> (\<forall>offer rest. select_offer w offerId = offer # rest \<longrightarrow>
            (recipient_id offer \<noteq> actorId \<longrightarrow>
               PATCH_offers_id e req offerId w =
                 (ErrorResponse 403 ''Forbidden: Only the recipient can update this offer'', w))
          \<and> (recipient_id offer = actorId \<and> status offer \<noteq> Pending \<longrightarrow>
               PATCH_offers_id e req offerId w =
                 (ErrorResponse 400 ''Only pending offers can be updated'', w))
          \<and> (recipient_id offer = actorId \<and> status offer = Pending \<longrightarrow>
               (json_body req = None \<longrightarrow>
                  PATCH_offers_id e req offerId w = (ErrorResponse 400 ''Invalid input'', w))
             \<and> (\<forall>body. json_body req = Some body
                    \<and> member body ''status'' \<noteq> Some (JStr ''accepted'')
                    \<and> member body ''status'' \<noteq> Some (JStr ''rejected'') \<longrightarrow>
                  (\<exists>m. PATCH_offers_id e req offerId w = (ErrorResponse 400 m, w)))
             \<and> (\<forall>body newStatus. json_body req = Some body
                    \<and> (newStatus = Accepted \<or> newStatus = Rejected)
                    \<and> member body ''status'' = Some (JStr (status_text newStatus)) \<longrightarrow>
                  fst (PATCH_offers_id e req offerId w) =
                    OfferResponse 200
                      (formatTradeOfferResponse (offer\<lparr> status := newStatus, updated_at := clock e \<rparr>))
                \<and> select_offer (snd (PATCH_offers_id e req offerId w)) offerId =
                    map (\<lambda>x. x\<lparr> status := newStatus, updated_at := clock e \<rparr>) (offer # rest))))"
proof (intro conjI impI allI)
  assume "select_offer w offerId = []"
  then show "PATCH_offers_id e req offerId w = (ErrorResponse 404 ''Trade offer not found'', w)"
    using auth by (simp add: PATCH_offers_id_def patch_read_def errorResponse_def)
next
  fix offer rest
  assume sel: "select_offer w offerId = offer # rest"
  { assume "recipient_id offer \<noteq> actorId"
    then show "PATCH_offers_id e req offerId w =
        (ErrorResponse 403 ''Forbidden: Only the recipient can update this offer'', w)"
      using auth sel by (simp add: PATCH_offers_id_def patch_read_def errorResponse_def) }
  { assume "recipient_id offer = actorId \<and> status offer \<noteq> Pending"
    then show "PATCH_offers_id e req offerId w =
        (ErrorResponse 400 ''Only pending offers can be updated'', w)"
      using auth sel by (simp add: PATCH_offers_id_def patch_read_def errorResponse_def) }
  { assume p: "recipient_id offer = actorId \<and> status offer = Pending"
    { assume "json_body req = None"
      then show "PATCH_offers_id e req offerId w = (ErrorResponse 400 ''Invalid input'', w)"
        using auth sel p by (simp add: PATCH_offers_id_def patch_read_def errorResponse_def) }
    { fix body
      assume "json_body req = Some body
            \<and> member body ''status'' \<noteq> Some (JStr ''accepted'')
            \<and> member body ''status'' \<noteq> Some (JStr ''rejected'')"
      then show "\<exists>m. PATCH_offers_id e req offerId w = (ErrorResponse 400 m, w)"
        using auth sel p
        by (auto simp: PATCH_offers_id_def patch_read_def errorResponse_def
              TradeOfferUpdateSchema_def split: option.splits json.splits) }
    { fix body newStatus
      assume b: "json_body req = Some body
               \<and> (newStatus = Accepted \<or> newStatus = Rejected)
               \<and> member body ''status'' = Some (JStr (status_text newStatus))"
      then have "TradeOfferUpdateSchema body = Success newStatus"
        by (auto simp: TradeOfferUpdateSchema_def)
      with b have r: "patch_read e req offerId w = Inr newStatus"
        using auth sel p by (simp add: patch_read_def)
      show "fst (PATCH_offers_id e req offerId w) =
              OfferResponse 200
                (formatTradeOfferResponse (offer\<lparr> status := newStatus, updated_at := clock e \<rparr>))"
        using r patch_write_result(1) [OF sel, of e newStatus]
        by (simp add: PATCH_offers_id_def set_status_def)
      show "select_offer (snd (PATCH_offers_id e req offerId w)) offerId =
              map (\<lambda>x. x\<lparr> status := newStatus, updated_at := clock e \<rparr>) (offer # rest)"
        using r patch_write_result(2) [OF sel, of e newStatus offerId]
        by (simp add: PATCH_offers_id_def set_status_def) } }
qed


lemma bob_accepts_facts:
  "requireAuth env1 (as_user ''bob'' accept) = Inr 2"
  "select_offer world1 1 = [offer1]"
  "recipient_id offer1 = 2"
  "status offer1 = Pending"
  "json_body (as_user ''bob'' accept) = Some accept"
  "member accept ''status'' = Some (JStr (status_text Accepted))"
  "clock env1 = 2000"
  by code_simp+

theorem update_status_witness:
  "requireAuth env1 (as_user ''bob'' accept) = Inr 2
 \<and> select_offer world1 1 = [offer1]
 \<and> recipient_id offer1 = 2 \<and> status offer1 = Pending
 \<and> json_body (as_user ''bob'' accept) = Some accept
 \<and> member accept ''status'' = Some (JStr (status_text Accepted))
 \<and> fst (PATCH_offers_id env1 (as_user ''bob'' accept) 1 world1) =
      OfferResponse 200 (formatTradeOfferResponse (offer1\<lparr> status := Accepted, updated_at := 2000 \<rparr>))
 \<and> select_offer (snd (PATCH_offers_id env1 (as_user ''bob'' accept) 1 world1)) 1 =
      [offer1\<lparr> status := Accepted, updated_at := 2000 \<rparr>]"
  using update_status_outcomes [OF bob_accepts_facts(1), of world1 1] bob_accepts_facts
  by simp

subsection \<open>Failed operations\<close>

text \<open>
  C7. When \<open>POST /offers\<close> or \<open>PATCH /offers/:id\<close> answers with an error, whatever
  its code, the world is the one the request found: no row created or changed, nothing
  handed to the producer. In particular an actor offering an item of their own for an item
  of their own is answered \<open>400\<close> (\<open>InvalidRequest\<close>), and an actor who is not the
  recipient of an existing offer is answered \<open>403\<close> (\<open>Forbidden\<close>), both with the
  world untouched.
\<close>

theorem failed_operation_changes_nothing:
  "(fst (POST_offers e req w) = ErrorResponse c m \<longrightarrow> snd (POST_offers e req w) = w)
 \<and> (fst (PATCH_offers_id e req offerId w) = ErrorResponse c m \<longrightarrow>
      snd (PATCH_offers_id e req offerId w) = w)
 \<and> (requireAuth e req = Inr actorId \<and> json_body req = Some body
      \<and> TradeOfferInputSchema body = Success (requestedItemId, offeredItemId)
      \<and> owner_of w offeredItemId = Some actorId
      \<and> owner_of w requestedItemId = Some actorId \<longrightarrow>
      POST_offers e req w = (ErrorResponse 400 ''Cannot create trade offer for your own game'', w))
 \<and> (requireAuth e req = Inr actorId
      \<and> recipient_of w offerId \<noteq> None \<and> recipient_of w offerId \<noteq> Some actorId \<longrightarrow>
      PATCH_offers_id e req offerId w =
        (ErrorResponse 403 ''Forbidden: Only the recipient can update this offer'', w))"
proof (intro conjI impI)
  assume "fst (POST_offers e req w) = ErrorResponse c m"
  then show "snd (POST_offers e req w) = w"
    by (rule POST_offers_error_unchanged)
next
  assume "fst (PATCH_offers_id e req offerId w) = ErrorResponse c m"
  then show "snd (PATCH_offers_id e req offerId w) = w"
    by (rule PATCH_offers_id_error_unchanged)
next
  assume "requireAuth e req = Inr actorId \<and> json_body req = Some body
      \<and> TradeOfferInputSchema body = Success (requestedItemId, offeredItemId)
      \<and> owner_of w offeredItemId = Some actorId
      \<and> owner_of w requestedItemId = Some actorId"
  then show "POST_offers e req w =
      (ErrorResponse 400 ''Cannot create trade offer for your own game'', w)"
    by (auto simp: POST_offers_def owner_of_def errorResponse_def split: list.splits)
next
  assume "requireAuth e req = Inr actorId
      \<and> recipient_of w offerId \<noteq> None \<and> recipient_of w offerId \<noteq> Some actorId"
  then show "PATCH_offers_id e req offerId w =
      (ErrorResponse 403 ''Forbidden: Only the recipient can update this offer'', w)"
    by (auto simp: PATCH_offers_id_def patch_read_def recipient_of_def errorResponse_def
          split: list.splits)
qed

lemma failure_facts:
  "requireAuth env0 (as_user ''alice'' offer_zelda_for_zelda) = Inr 1"
  "json_body (as_user ''alice'' offer_zelda_for_zelda) = Some offer_zelda_for_zelda"
  "TradeOfferInputSchema offer_zelda_for_zelda = Success (1, 1)"
  "owner_of world1 1 = Some 1"
  "requireAuth env0 (as_user ''carol'' accept) = Inr 3"
  "recipient_of world1 1 = Some 2"
  by code_simp+

theorem failed_operation_witness:
  "requireAuth env0 (as_user ''alice'' offer_zelda_for_zelda) = Inr 1
 \<and> json_body (as_user ''alice'' offer_zelda_for_zelda) = Some offer_zelda_for_zelda
 \<and> TradeOfferInputSchema offer_zelda_for_zelda = Success (1, 1)
 \<and> owner_of world1 1 = Some 1
 \<and> POST_offers env0 (as_user ''alice'' offer_zelda_for_zelda) world1 =
      (ErrorResponse 400 ''Cannot create trade offer for your own game'', world1)
 \<and> requireAuth env0 (as_user ''carol'' accept) = Inr 3
 \<and> recipient_of world1 1 = Some 2
 \<and> PATCH_offers_id env0 (as_user ''carol'' accept) 1 world1 =
      (ErrorResponse 403 ''Forbidden: Only the recipient can update this offer'', world1)"
  using failed_operation_changes_nothing
          [of env0 "as_user ''alice'' offer_zelda_for_zelda" world1 400
              "''Cannot create trade offer for your own game''" 1 1 offer_zelda_for_zelda 1 1]
        failed_operation_changes_nothing
          [of env0 "as_user ''carol'' accept" world1 403
              "''Forbidden: Only the recipient can update this offer''" 1 3 accept 1 1]
        failure_facts
  by simp

subsection \<open>What a successful operation leaves in the trace\<close>

lemma sends_append [simp]: "sends (xs @ ys) = sends xs @ sends ys"
  by (induction xs rule: sends.induct) simp_all

lemma sends_writes [simp]: "sends (map SqlWrite rows) = []"
  by (induction rows) simp_all

lemma added_self [simp]: "added w w = []"
  by (simp add: added_def)

lemma publish_trace:
  "\<exists>m fx. trace (publishEmailEvent e t s b w) = trace w @ ProducerSend m # fx
        \<and> ev_to (msg_value m) = t
        \<and> sends fx = [] \<and> (\<forall>x \<in> set fx. \<not> is_write x)"
  by (simp add: publishEmailEvent_def Let_def)

text \<open>Two publications in a row, seen from the trace.\<close>

lemma publish_twice:
  "\<exists>m1 fx1 m2 fx2.
     trace (publishEmailEvent e t2 s2 b2 (publishEmailEvent e t1 s1 b1 w)) =
       trace w @ ProducerSend m1 # fx1 @ ProducerSend m2 # fx2
   \<and> ev_to (msg_value m1) = t1 \<and> ev_to (msg_value m2) = t2
   \<and> sends fx1 = [] \<and> sends fx2 = []
   \<and> (\<forall>x \<in> set fx1. \<not> is_write x) \<and> (\<forall>x \<in> set fx2. \<not> is_write x)"
proof -
  obtain m1 fx1 where 1: "trace (publishEmailEvent e t1 s1 b1 w) = trace w @ ProducerSend m1 # fx1"
    "ev_to (msg_value m1) = t1" "sends fx1 = []" "\<forall>x \<in> set fx1. \<not> is_write x"
    using publish_trace [of e t1 s1 b1 w] by blast
  obtain m2 fx2 where 2: "trace (publishEmailEvent e t2 s2 b2 (publishEmailEvent e t1 s1 b1 w)) =
      trace (publishEmailEvent e t1 s1 b1 w) @ ProducerSend m2 # fx2"
    "ev_to (msg_value m2) = t2" "sends fx2 = []" "\<forall>x \<in> set fx2. \<not> is_write x"
    using publish_trace [of e t2 s2 b2 "publishEmailEvent e t1 s1 b1 w"] by blast
  from 1 2 show ?thesis by auto
qed


lemma requireAuth_Inl:
  "requireAuth e req = Inl r \<Longrightarrow> r = ErrorResponse 401 ''Unauthorized: Please login first''"
  by (auto simp: requireAuth_def errorResponse_def split: option.splits)

lemma POST_offers_success_parts:
  assumes "fst (POST_offers e req w) = OfferResponse c j"
  shows "\<exists>uid body r g rg rrest og orest offer rows w1.
      requireAuth e req = Inr uid \<and> json_body req = Some body
    \<and> TradeOfferInputSchema body = Success (r, g)
    \<and> select_game w r = rg # rrest \<and> select_game w g = og # orest
    \<and> owner_id og = uid \<and> owner_id rg \<noteq> uid
    \<and> insert_offer w r g uid (owner_id rg) (clock e) = Some (offer # rows, w1)"
proof (cases "requireAuth e req")
  case (Inl r)
  with assms requireAuth_Inl [OF Inl] show ?thesis by (simp add: POST_offers_def)
next
  case (Inr uid)
  show ?thesis
  proof (cases "json_body req")
    case None
    with assms Inr show ?thesis by (simp add: POST_offers_def errorResponse_def)
  next
    case (Some body)
    show ?thesis
    proof (cases "TradeOfferInputSchema body")
      case (Failure m)
      with assms Inr Some show ?thesis by (simp add: POST_offers_def errorResponse_def)
    next
      case (Success ids)
      obtain r g where ids: "ids = (r, g)" by (cases ids)
      show ?thesis
      proof (cases "select_game w r")
        case Nil
        with assms Inr Some Success ids show ?thesis by (simp add: POST_offers_def errorResponse_def)
      next
        case rg: (Cons rg rrest)
        show ?thesis
        proof (cases "select_game w g")
          case Nil
          with assms Inr Some Success ids rg show ?thesis
            by (simp add: POST_offers_def errorResponse_def)
        next
          case og: (Cons og orest)
          from assms Inr Some Success ids rg og
          have own: "owner_id og = uid" "owner_id rg \<noteq> uid"
            by (auto simp: POST_offers_def errorResponse_def split: if_splits)
          from assms Inr Some Success ids rg og own
          obtain offer rows w1 where
            "insert_offer w r g uid (owner_id rg) (clock e) = Some (offer # rows, w1)"
            by (auto simp: POST_offers_def errorResponse_def split: option.splits list.splits)
          with Inr Some Success ids rg og own show ?thesis by simp
        qed
      qed
    qed
  qed
qed

lemma broker_irrelevant [simp]:
  "requireAuth (e\<lparr> broker := b \<rparr>) req = requireAuth e req"
  by (simp add: requireAuth_def authenticate_def split: option.split)

lemma stored_publish [simp]: "stored (publishEmailEvent e t s b w) = stored w"
  by (simp add: stored_def publishEmailEvent_def Let_def)

lemma POST_offers_any_broker:
  "fst (POST_offers (e\<lparr> broker := b \<rparr>) req w) = fst (POST_offers e req w)
 \<and> stored (snd (POST_offers (e\<lparr> broker := b \<rparr>) req w)) = stored (snd (POST_offers e req w))"
  by (simp add: POST_offers_def Let_def
           split: sum.split option.split safe_parse.split list.split prod.split)

lemma stored_status_emails [simp]: "stored (status_emails e t1 s1 t2 s2 offer w) = stored w"
  by (simp add: status_emails_def Let_def split: list.split prod.split)

lemma PATCH_offers_id_any_broker:
  "fst (PATCH_offers_id (e\<lparr> broker := b \<rparr>) req i w) = fst (PATCH_offers_id e req i w)
 \<and> stored (snd (PATCH_offers_id (e\<lparr> broker := b \<rparr>) req i w))
     = stored (snd (PATCH_offers_id e req i w))"
  by (simp add: PATCH_offers_id_def patch_read_def patch_write_def Let_def
           split: sum.split option.split safe_parse.split list.split prod.split)

lemma insert_offer_Some:
  assumes "insert_offer w r g a b n = Some (rows, w1)"
  shows "\<exists>offer. rows = [offer]
      \<and> offerer_id offer = a \<and> recipient_id offer = b
      \<and> select_user w a \<noteq> [] \<and> select_user w b \<noteq> []
      \<and> w1 = w\<lparr> trade_offers := trade_offers w @ [offer],
                  trade_offers_id_seq := trade_offers_id_seq w + 1,
                  trace := trace w @ [SqlWrite offer] \<rparr>"
  using assms by (auto simp: insert_offer_def Let_def split: if_splits)

lemma select_user_tables [simp]:
  "select_user (w\<lparr> trade_offers := xs, trade_offers_id_seq := k, trace := fx \<rparr>) = select_user w"
  "select_user (w\<lparr> trade_offers := xs, trace := fx \<rparr>) = select_user w"
  "select_game (w\<lparr> trade_offers := xs, trace := fx \<rparr>) = select_game w"
  by (simp_all add: select_user_def select_game_def fun_eq_iff)

lemma POST_offers_effects:
  assumes "fst (POST_offers e req w) = OfferResponse c j"
  shows "\<exists>offer m1 fx1 m2 fx2.
      j = formatTradeOfferResponse offer
    \<and> trade_offers (snd (POST_offers e req w)) = trade_offers w @ [offer]
    \<and> trace (snd (POST_offers e req w)) =
        trace w @ SqlWrite offer # ProducerSend m1 # fx1 @ ProducerSend m2 # fx2
    \<and> email_of w (recipient_id offer) = Some (ev_to (msg_value m1))
    \<and> email_of w (offerer_id offer) = Some (ev_to (msg_value m2))
    \<and> sends fx1 = [] \<and> sends fx2 = []
    \<and> (\<forall>x \<in> set fx1. \<not> is_write x) \<and> (\<forall>x \<in> set fx2. \<not> is_write x)"
proof -
  from POST_offers_success_parts [OF assms]
  obtain uid body r g rg rrest og orest offer rows w1 where p:
      "requireAuth e req = Inr uid" "json_body req = Some body"
      "TradeOfferInputSchema body = Success (r, g)"
      "select_game w r = rg # rrest" "select_game w g = og # orest"
      "owner_id og = uid" "owner_id rg \<noteq> uid"
      "insert_offer w r g uid (owner_id rg) (clock e) = Some (offer # rows, w1)"
    by blast
  from insert_offer_Some [OF p(8)]
  have i: "rows = []" "offerer_id offer = uid" "recipient_id offer = owner_id rg"
      "select_user w uid \<noteq> []" "select_user w (owner_id rg) \<noteq> []"
      "w1 = w\<lparr> trade_offers := trade_offers w @ [offer],
                trade_offers_id_seq := trade_offers_id_seq w + 1,
                trace := trace w @ [SqlWrite offer] \<rparr>"
    by auto
  from i(4) obtain offerer ur where offerer: "select_user w uid = offerer # ur"
    by (cases "select_user w uid") auto
  from i(5) obtain recipient rr where recipient: "select_user w (owner_id rg) = recipient # rr"
    by (cases "select_user w (owner_id rg)") auto
  let ?ctx = "offer_context offerer recipient (game_name og) (game_year og)
                (game_name rg) (game_year rg)"
  let ?w2 = "publishEmailEvent e (user_email offerer) ''Your trade offer has been sent!''
               (handlebars e offerCreatedConfirmationTemplate ?ctx)
               (publishEmailEvent e (user_email recipient) ''You've received a trade offer!''
                  (handlebars e offerReceivedTemplate ?ctx) w1)"
  have res: "POST_offers e req w = (OfferResponse 201 (formatTradeOfferResponse offer), ?w2)"
    using p i offerer recipient by (simp add: POST_offers_def Let_def)
  obtain m1 fx1 m2 fx2 where t:
      "trace ?w2 = trace w1 @ ProducerSend m1 # fx1 @ ProducerSend m2 # fx2"
      "ev_to (msg_value m1) = user_email recipient" "ev_to (msg_value m2) = user_email offerer"
      "sends fx1 = []" "sends fx2 = []"
      "\<forall>x \<in> set fx1. \<not> is_write x" "\<forall>x \<in> set fx2. \<not> is_write x"
    using publish_twice [of e "user_email offerer" "''Your trade offer has been sent!''"
        "handlebars e offerCreatedConfirmationTemplate ?ctx"
        "user_email recipient" "''You've received a trade offer!''"
        "handlebars e offerReceivedTemplate ?ctx" w1]
    by blast
  have "j = formatTradeOfferResponse offer" using assms res by simp
  moreover have "trade_offers (snd (POST_offers e req w)) = trade_offers w @ [offer]"
    using res i(6) by simp
  moreover have "trace (snd (POST_offers e req w)) =
        trace w @ SqlWrite offer # ProducerSend m1 # fx1 @ ProducerSend m2 # fx2"
    using res t(1) i(6) by simp
  moreover have "email_of w (recipient_id offer) = Some (ev_to (msg_value m1))"
    using i(3) recipient t(2) by (simp add: email_of_def)
  moreover have "email_of w (offerer_id offer) = Some (ev_to (msg_value m2))"
    using i(2) offerer t(3) by (simp add: email_of_def)
  ultimately show ?thesis using t(4-7) by blast
qed

lemma patch_read_Inl:
  "patch_read e req i w = Inl r \<Longrightarrow> \<exists>c m. r = ErrorResponse c m"
  by (auto simp: patch_read_def errorResponse_def dest: requireAuth_Inl
           split: sum.splits list.splits if_splits option.splits safe_parse.splits)

lemma patch_read_Inr:
  "patch_read e req i w = Inr st \<Longrightarrow>
     (st = Accepted \<or> st = Rejected)
   \<and> (\<exists>offer rest. select_offer w i = offer # rest \<and> status offer = Pending)"
  by (auto simp: patch_read_def dest: schema_status
           split: sum.splits list.splits if_splits option.splits safe_parse.splits)

lemma select_offer_member:
  "select_offer w i = offer # rest \<Longrightarrow> offer \<in> set (trade_offers w) \<and> offer_id offer = i"
  by (metis (mono_tags, lifting) filter_eq_ConsD in_set_conv_decomp select_offer_def)

lemma filter_distinct_single:
  "distinct (map f xs) \<Longrightarrow> filter (\<lambda>x. f x = i) xs = y # ys \<Longrightarrow> ys = []"
proof (induction xs arbitrary: y ys)
  case Nil
  then show ?case by simp
next
  case (Cons x xs)
  show ?case
  proof (cases "f x = i")
    case True
    with Cons.prems have "filter (\<lambda>x. f x = i) xs = ys" and "i \<notin> f ` set xs" by auto
    then show ?thesis by (auto simp: filter_empty_conv)
  next
    case False
    with Cons show ?thesis by simp
  qed
qed

lemma select_offer_single:
  "constraints w \<Longrightarrow> select_offer w i = offer # rest \<Longrightarrow> rest = []"
  unfolding constraints_def select_offer_def
  by (blast dest: filter_distinct_single)

lemma update_offer_world:
  "snd (update_offer w i st n) =
     w\<lparr> trade_offers := trade_offers (snd (update_offer w i st n)),
        trace := trace w @ map SqlWrite (map (set_status st n) (select_offer w i)) \<rparr>"
  by (simp add: update_offer_def Let_def select_offer_def update_rows_filter)

lemma status_emails_quiet:
  "\<exists>fx. trace (status_emails e t1 s1 t2 s2 offer w) = trace w @ fx
       \<and> (\<forall>x \<in> set fx. \<not> is_write x)"
proof (cases "\<exists>a ar b br c cr d dr.
          select_user w (offerer_id offer) = a # ar \<and> select_user w (recipient_id offer) = b # br
        \<and> select_game w (requested_game_id offer) = c # cr
        \<and> select_game w (offered_game_id offer) = d # dr")
  case True
  then obtain a ar b br c cr d dr where s:
      "select_user w (offerer_id offer) = a # ar" "select_user w (recipient_id offer) = b # br"
      "select_game w (requested_game_id offer) = c # cr"
      "select_game w (offered_game_id offer) = d # dr"
    by blast
  let ?ctx = "offer_context a b (game_name d) (game_year d) (game_name c) (game_year c)"
  from publish_twice [of e "user_email b" s2 "handlebars e t2 ?ctx"
                          "user_email a" s1 "handlebars e t1 ?ctx" w] s
  show ?thesis by (auto simp: status_emails_def Let_def)
next
  case False
  then have "status_emails e t1 s1 t2 s2 offer w = w"
    by (auto simp: status_emails_def Let_def split: list.splits)
  then show ?thesis by simp
qed

lemma status_emails_two:
  assumes "select_user w (offerer_id offer) \<noteq> []" "select_user w (recipient_id offer) \<noteq> []"
      and "select_game w (requested_game_id offer) \<noteq> []"
      and "select_game w (offered_game_id offer) \<noteq> []"
  shows "\<exists>m1 fx1 m2 fx2.
      trace (status_emails e t1 s1 t2 s2 offer w) =
        trace w @ ProducerSend m1 # fx1 @ ProducerSend m2 # fx2
    \<and> email_of w (offerer_id offer) = Some (ev_to (msg_value m1))
    \<and> email_of w (recipient_id offer) = Some (ev_to (msg_value m2))
    \<and> sends fx1 = [] \<and> sends fx2 = []"
proof -
  from assms obtain a ar b br c cr d dr where s:
      "select_user w (offerer_id offer) = a # ar" "select_user w (recipient_id offer) = b # br"
      "select_game w (requested_game_id offer) = c # cr"
      "select_game w (offered_game_id offer) = d # dr"
    by (meson list.exhaust)
  let ?ctx = "offer_context a b (game_name d) (game_year d) (game_name c) (game_year c)"
  obtain m1 fx1 m2 fx2 where t:
      "trace (publishEmailEvent e (user_email b) s2 (handlebars e t2 ?ctx)
                (publishEmailEvent e (user_email a) s1 (handlebars e t1 ?ctx) w)) =
         trace w @ ProducerSend m1 # fx1 @ ProducerSend m2 # fx2"
      "ev_to (msg_value m1) = user_email a" "ev_to (msg_value m2) = user_email b"
      "sends fx1 = []" "sends fx2 = []"
    using publish_twice [of e "user_email b" s2 "handlebars e t2 ?ctx"
                            "user_email a" s1 "handlebars e t1 ?ctx" w]
    by blast
  have "trace (status_emails e t1 s1 t2 s2 offer w) =
          trace w @ ProducerSend m1 # fx1 @ ProducerSend m2 # fx2"
    using s t(1) by (simp add: status_emails_def Let_def)
  moreover have "email_of w (offerer_id offer) = Some (ev_to (msg_value m1))"
    using s t(2) by (simp add: email_of_def)
  moreover have "email_of w (recipient_id offer) = Some (ev_to (msg_value m2))"
    using s t(3) by (simp add: email_of_def)
  ultimately show ?thesis using t(4,5) by blast
qed

lemma set_status_fields [simp]:
  "offerer_id (set_status st n offer) = offerer_id offer"
  "recipient_id (set_status st n offer) = recipient_id offer"
  "requested_game_id (set_status st n offer) = requested_game_id offer"
  "offered_game_id (set_status st n offer) = offered_game_id offer"
  "status (set_status st n offer) = st"
  by (simp_all add: set_status_def)

lemma update_offer_selects [simp]:
  "select_user (snd (update_offer w i st n)) = select_user w"
  "select_game (snd (update_offer w i st n)) = select_game w"
  by (simp_all add: update_offer_def Let_def select_user_def select_game_def fun_eq_iff)

lemma update_offer_trace:
  "trace (snd (update_offer w i st n)) =
     trace w @ map SqlWrite (map (set_status st n) (select_offer w i))"
  by (simp add: update_offer_def Let_def select_offer_def update_rows_filter)

lemma email_of_update [simp]:
  "email_of (snd (update_offer w i st n)) = email_of w"
  by (simp add: email_of_def fun_eq_iff)

lemma patch_write_shape:
  assumes sel: "select_offer w i = offer # rest" and st: "st = Accepted \<or> st = Rejected"
  shows "\<exists>t1 s1 t2 s2.
      patch_write e i st w =
        (OfferResponse 200 (formatTradeOfferResponse (set_status st (clock e) offer)),
         status_emails e t1 s1 t2 s2 (set_status st (clock e) offer)
           (snd (update_offer w i st (clock e))))"
proof -
  obtain rows w1 where u: "update_offer w i st (clock e) = (rows, w1)"
    by (cases "update_offer w i st (clock e)")
  have rows: "rows = set_status st (clock e) offer # map (set_status st (clock e)) rest"
    using update_offer_returning [of w i st "clock e"] u sel by simp
  from st show ?thesis
  proof
    assume "st = Accepted"
    with u rows show ?thesis by (simp add: patch_write_def Let_def) blast
  next
    assume "st = Rejected"
    with u rows show ?thesis by (simp add: patch_write_def Let_def) blast
  qed
qed

lemma PATCH_offers_id_success:
  assumes "fst (PATCH_offers_id e req i w) = OfferResponse c j"
  shows "\<exists>st offer rest t1 s1 t2 s2.
      (st = Accepted \<or> st = Rejected) \<and> select_offer w i = offer # rest
    \<and> j = formatTradeOfferResponse (set_status st (clock e) offer)
    \<and> snd (PATCH_offers_id e req i w) =
        status_emails e t1 s1 t2 s2 (set_status st (clock e) offer)
          (snd (update_offer w i st (clock e)))"
proof (cases "patch_read e req i w")
  case (Inl r)
  with assms patch_read_Inl [OF Inl] show ?thesis by (auto simp: PATCH_offers_id_def)
next
  case (Inr st)
  from patch_read_Inr [OF Inr] obtain offer rest where
    s: "st = Accepted \<or> st = Rejected" "select_offer w i = offer # rest"
    by blast
  from patch_write_shape [OF s(2) s(1), of e] obtain t1 s1 t2 s2 where
    "patch_write e i st w =
        (OfferResponse 200 (formatTradeOfferResponse (set_status st (clock e) offer)),
         status_emails e t1 s1 t2 s2 (set_status st (clock e) offer)
           (snd (update_offer w i st (clock e))))"
    by blast
  with assms Inr have "j = formatTradeOfferResponse (set_status st (clock e) offer)"
      "snd (PATCH_offers_id e req i w) =
        status_emails e t1 s1 t2 s2 (set_status st (clock e) offer)
          (snd (update_offer w i st (clock e)))"
    by (simp_all add: PATCH_offers_id_def)
  with s show ?thesis by blast
qed

lemma PATCH_offers_id_effects:
  assumes "fst (PATCH_offers_id e req i w) = OfferResponse c j" and ok: "constraints w"
  shows "\<exists>offer m1 fx1 m2 fx2.
      j = formatTradeOfferResponse offer
    \<and> select_offer (snd (PATCH_offers_id e req i w)) i = [offer]
    \<and> trace (snd (PATCH_offers_id e req i w)) =
        trace w @ SqlWrite offer # ProducerSend m1 # fx1 @ ProducerSend m2 # fx2
    \<and> email_of w (offerer_id offer) = Some (ev_to (msg_value m1))
    \<and> email_of w (recipient_id offer) = Some (ev_to (msg_value m2))
    \<and> sends fx1 = [] \<and> sends fx2 = []"
proof -
  from PATCH_offers_id_success [OF assms(1)]
  obtain st offer rest t1 s1 t2 s2 where p:
      "st = Accepted \<or> st = Rejected" "select_offer w i = offer # rest"
      "j = formatTradeOfferResponse (set_status st (clock e) offer)"
      "snd (PATCH_offers_id e req i w) =
        status_emails e t1 s1 t2 s2 (set_status st (clock e) offer)
          (snd (update_offer w i st (clock e)))"
    by blast
  have rest: "rest = []" using select_offer_single [OF ok p(2)] .
  let ?upd = "set_status st (clock e) offer"
  let ?w1 = "snd (update_offer w i st (clock e))"
  have mem: "offer \<in> set (trade_offers w)" using select_offer_member [OF p(2)] by simp
  with ok have fk:
      "select_user ?w1 (offerer_id ?upd) \<noteq> []" "select_user ?w1 (recipient_id ?upd) \<noteq> []"
      "select_game ?w1 (requested_game_id ?upd) \<noteq> []"
      "select_game ?w1 (offered_game_id ?upd) \<noteq> []"
    by (simp_all add: constraints_def)
  from status_emails_two [OF fk, of e t1 s1 t2 s2]
  obtain m1 fx1 m2 fx2 where t:
      "trace (status_emails e t1 s1 t2 s2 ?upd ?w1) =
         trace ?w1 @ ProducerSend m1 # fx1 @ ProducerSend m2 # fx2"
      "email_of ?w1 (offerer_id ?upd) = Some (ev_to (msg_value m1))"
      "email_of ?w1 (recipient_id ?upd) = Some (ev_to (msg_value m2))"
      "sends fx1 = []" "sends fx2 = []"
    by blast
  have "select_offer (snd (PATCH_offers_id e req i w)) i = [?upd]"
    using p(4) p(2) rest select_offer_after_update [of w i st "clock e" i] by simp
  moreover have "trace (snd (PATCH_offers_id e req i w)) =
        trace w @ SqlWrite ?upd # ProducerSend m1 # fx1 @ ProducerSend m2 # fx2"
    using p(4) t(1) p(2) rest by (simp add: update_offer_trace)
  ultimately show ?thesis using p(3) t(2-5) by auto
qed

subsection \<open>The operations keep the constraints\<close>

lemma constraints_stored:
  "stored w1 = stored w \<Longrightarrow> constraints w1 = constraints w"
  by (simp add: stored_def constraints_def select_user_def select_game_def)

lemma constraints_insert:
  assumes "constraints w" and "insert_offer w r g a b n = Some (rows, w1)"
  shows "constraints w1"
proof -
  let ?row = "\<lparr> offer_id = trade_offers_id_seq w + 1, requested_game_id = r,
                 offered_game_id = g, offerer_id = a, recipient_id = b, status = Pending,
                 created_at = n, updated_at = n \<rparr>"
  from assms(2) have fk: "select_game w r \<noteq> []" "select_game w g \<noteq> []"
      "select_user w a \<noteq> []" "select_user w b \<noteq> []"
    and w1: "w1 = w\<lparr> trade_offers := trade_offers w @ [?row],
                     trade_offers_id_seq := trade_offers_id_seq w + 1,
                     trace := trace w @ [SqlWrite ?row] \<rparr>"
    by (auto simp: insert_offer_def Let_def split: if_splits)
  from assms(1) have fresh: "trade_offers_id_seq w + 1 \<notin> offer_id ` set (trade_offers w)"
    by (auto simp: constraints_def)
  have sel: "select_user w1 = select_user w" "select_game w1 = select_game w"
    using w1 by (simp_all add: select_user_def select_game_def fun_eq_iff)
  show ?thesis
    unfolding constraints_def sel
    using assms(1) fk fresh w1 by (auto simp: constraints_def)
qed

lemma constraints_update:
  assumes "constraints w"
  shows "constraints (snd (update_offer w i st n))"
proof -
  let ?f = "\<lambda>offer. if offer_id offer = i then set_status st n offer else offer"
  have ids: "map offer_id (map ?f (trade_offers w)) = map offer_id (trade_offers w)"
    by (induction "trade_offers w") auto
  have rows: "trade_offers (snd (update_offer w i st n)) = map ?f (trade_offers w)"
    "trade_offers_id_seq (snd (update_offer w i st n)) = trade_offers_id_seq w"
    "games (snd (update_offer w i st n)) = games w"
    by (simp_all add: update_offer_def Let_def)
  have d: "distinct (map offer_id (map ?f (trade_offers w)))"
    unfolding ids using assms by (simp add: constraints_def)
  show ?thesis
    unfolding constraints_def rows update_offer_selects
    using assms d by (auto simp: constraints_def)
qed

lemma constraints_publish [simp]:
  "constraints (publishEmailEvent e t s b w) = constraints w"
  by (rule constraints_stored) simp

lemma constraints_status_emails [simp]:
  "constraints (status_emails e t1 s1 t2 s2 offer w) = constraints w"
  by (rule constraints_stored) simp

lemma constraints_POST_offers:
  "constraints w \<Longrightarrow> constraints (snd (POST_offers e req w))"
  by (auto simp: POST_offers_def Let_def dest: constraints_insert
        split: sum.split option.split safe_parse.split list.split prod.split)

lemma constraints_PATCH_offers_id:
  assumes "constraints w"
  shows "constraints (snd (PATCH_offers_id e req i w))"
proof (cases "patch_read e req i w")
  case (Inl r)
  with assms show ?thesis by (simp add: PATCH_offers_id_def)
next
  case (Inr st)
  obtain rows w1 where u: "update_offer w i st (clock e) = (rows, w1)"
    by (cases "update_offer w i st (clock e)")
  with constraints_update [OF assms, of i st "clock e"] have "constraints w1" by simp
  with Inr u show ?thesis
    by (simp add: PATCH_offers_id_def patch_write_def Let_def split: list.split)
qed

lemma constraints_empty:
  "constraints \<lparr> users = us, games = [], trade_offers = [], trade_offers_id_seq = 0,
                 id_calls = 0, trace = [] \<rparr>"
  by (simp add: constraints_def)

subsection \<open>Events of an operation\<close>

lemma added_append: "trace w1 = trace w @ fx \<Longrightarrow> added w w1 = fx"
  by (simp add: added_def)

lemma format_ids [simp]:
  "j_recipientId (formatTradeOfferResponse offer) = recipient_id offer"
  "j_offererId (formatTradeOfferResponse offer) = offerer_id offer"
  by (simp_all add: formatTradeOfferResponse_def)

text \<open>
  C4. Under the table constraints, a successful \<open>POST /offers\<close> hands exactly two
  events to the producer, the first addressed to the recipient and the second to the
  offerer; a successful \<open>PATCH /offers/:id\<close> hands over exactly two, the first addressed to
  the offerer and the second to the recipient; and an operation that answers with an error
  hands over none.
\<close>

theorem success_emits_two_events_failure_none:
  assumes ok: "constraints w"
  shows "(\<forall>c j. fst (POST_offers e req w) = OfferResponse c j \<longrightarrow>
            map Some (addressees (added w (snd (POST_offers e req w)))) =
              [email_of w (j_recipientId j), email_of w (j_offererId j)])
       \<and> (\<forall>c j. fst (PATCH_offers_id e req offerId w) = OfferResponse c j \<longrightarrow>
            map Some (addressees (added w (snd (PATCH_offers_id e req offerId w)))) =
              [email_of w (j_offererId j), email_of w (j_recipientId j)])
       \<and> (\<forall>c m. fst (POST_offers e req w) = ErrorResponse c m \<longrightarrow>
            sends (added w (snd (POST_offers e req w))) = [])
       \<and> (\<forall>c m. fst (PATCH_offers_id e req offerId w) = ErrorResponse c m \<longrightarrow>
            sends (added w (snd (PATCH_offers_id e req offerId w))) = [])"
proof (intro conjI allI impI)
  fix c j
  assume "fst (POST_offers e req w) = OfferResponse c j"
  from POST_offers_effects [OF this]
  obtain offer m1 fx1 m2 fx2 where p:
      "j = formatTradeOfferResponse offer"
      "trace (snd (POST_offers e req w)) =
        trace w @ SqlWrite offer # ProducerSend m1 # fx1 @ ProducerSend m2 # fx2"
      "email_of w (recipient_id offer) = Some (ev_to (msg_value m1))"
      "email_of w (offerer_id offer) = Some (ev_to (msg_value m2))"
      "sends fx1 = []" "sends fx2 = []"
    by blast
  from added_append [OF p(2)] p(1,3-6)
  show "map Some (addressees (added w (snd (POST_offers e req w)))) =
              [email_of w (j_recipientId j), email_of w (j_offererId j)]"
    by (simp add: addressees_def)
next
  fix c j
  assume "fst (PATCH_offers_id e req offerId w) = OfferResponse c j"
  from PATCH_offers_id_effects [OF this ok]
  obtain offer m1 fx1 m2 fx2 where p:
      "j = formatTradeOfferResponse offer"
      "trace (snd (PATCH_offers_id e req offerId w)) =
        trace w @ SqlWrite offer # ProducerSend m1 # fx1 @ ProducerSend m2 # fx2"
      "email_of w (offerer_id offer) = Some (ev_to (msg_value m1))"
      "email_of w (recipient_id offer) = Some (ev_to (msg_value m2))"
      "sends fx1 = []" "sends fx2 = []"
    by blast
  from added_append [OF p(2)] p(1,3-6)
  show "map Some (addressees (added w (snd (PATCH_offers_id e req offerId w)))) =
              [email_of w (j_offererId j), email_of w (j_recipientId j)]"
    by (simp add: addressees_def)
next
  fix c m
  assume "fst (POST_offers e req w) = ErrorResponse c m"
  from POST_offers_error_unchanged [OF this]
  show "sends (added w (snd (POST_offers e req w))) = []" by simp
next
  fix c m
  assume "fst (PATCH_offers_id e req offerId w) = ErrorResponse c m"
  from PATCH_offers_id_error_unchanged [OF this]
  show "sends (added w (snd (PATCH_offers_id e req offerId w))) = []" by simp
qed

lemma emission_facts:
  "fst (POST_offers env0 (as_user ''alice'' offer_zelda_for_metroid) world0) =
     OfferResponse 201 (formatTradeOfferResponse offer1)"
  "email_of world0 (j_recipientId (formatTradeOfferResponse offer1)) = Some ''bob@example.com''"
  "email_of world0 (j_offererId (formatTradeOfferResponse offer1)) = Some ''alice@example.com''"
  "fst (PATCH_offers_id env1 (as_user ''bob'' accept) 1 world1) =
     OfferResponse 200 (formatTradeOfferResponse (offer1\<lparr> status := Accepted, updated_at := 2000 \<rparr>))"
  "email_of world1 (j_offererId (formatTradeOfferResponse
       (offer1\<lparr> status := Accepted, updated_at := 2000 \<rparr>))) = Some ''alice@example.com''"
  "email_of world1 (j_recipientId (formatTradeOfferResponse
       (offer1\<lparr> status := Accepted, updated_at := 2000 \<rparr>))) = Some ''bob@example.com''"
  "fst (PATCH_offers_id env0 (as_user ''carol'' accept) 1 world1) =
     ErrorResponse 403 ''Forbidden: Only the recipient can update this offer''"
  by code_simp+

theorem success_emits_two_events_witness:
  "constraints world0 \<and> constraints world1
 \<and> fst (POST_offers env0 (as_user ''alice'' offer_zelda_for_metroid) world0) =
     OfferResponse 201 (formatTradeOfferResponse offer1)
 \<and> addressees (added world0 (snd (POST_offers env0 (as_user ''alice'' offer_zelda_for_metroid) world0)))
     = [''bob@example.com'', ''alice@example.com'']
 \<and> fst (PATCH_offers_id env1 (as_user ''bob'' accept) 1 world1) =
     OfferResponse 200 (formatTradeOfferResponse (offer1\<lparr> status := Accepted, updated_at := 2000 \<rparr>))
 \<and> addressees (added world1 (snd (PATCH_offers_id env1 (as_user ''bob'' accept) 1 world1)))
     = [''alice@example.com'', ''bob@example.com'']
 \<and> fst (PATCH_offers_id env0 (as_user ''carol'' accept) 1 world1) =
     ErrorResponse 403 ''Forbidden: Only the recipient can update this offer''
 \<and> sends (added world1 (snd (PATCH_offers_id env0 (as_user ''carol'' accept) 1 world1))) = []"
proof -
  have "map Some (addressees (added world0
          (snd (POST_offers env0 (as_user ''alice'' offer_zelda_for_metroid) world0)))) =
        [Some ''bob@example.com'', Some ''alice@example.com'']"
    using success_emits_two_events_failure_none
            [OF world0_facts(4), of env0 "as_user ''alice'' offer_zelda_for_metroid"]
          emission_facts
    by simp
  moreover have "map Some (addressees (added world1
          (snd (PATCH_offers_id env1 (as_user ''bob'' accept) 1 world1)))) =
        [Some ''alice@example.com'', Some ''bob@example.com'']"
    using success_emits_two_events_failure_none
            [OF world1_facts(4), where e = env1 and req = "as_user ''bob'' accept" and offerId = 1]
          emission_facts
    by simp
  moreover have "sends (added world1
          (snd (PATCH_offers_id env0 (as_user ''carol'' accept) 1 world1))) = []"
    using success_emits_two_events_failure_none
            [OF world1_facts(4), where e = env0 and req = "as_user ''carol'' accept" and offerId = 1]
          emission_facts
    by simp
  ultimately show ?thesis
    using world0_facts(4) world1_facts(4) emission_facts by (simp add: map_eq_Cons_conv)
qed

subsection \<open>Commit, then emission\<close>

lemma writes_first:
  assumes "rows \<noteq> []" and "\<forall>x \<in> set fx. \<not> is_write x"
  shows "commit_precedes_emission (map SqlWrite rows @ fx)"
proof -
  have "filter is_write (map SqlWrite rows @ fx) \<noteq> []"
    using assms(1) by (cases rows) simp_all
  moreover have "dropWhile (\<lambda>x. \<not> is_send x) (map SqlWrite rows @ fx)
               = dropWhile (\<lambda>x. \<not> is_send x) fx"
    by (rule dropWhile_append2) auto
  moreover have "filter is_write (dropWhile (\<lambda>x. \<not> is_send x) fx) = []"
    using assms(2) by (auto simp: filter_empty_conv dest: set_dropWhileD)
  ultimately show ?thesis by (simp add: commit_precedes_emission_def)
qed

lemma nothing_added_is_ordered: "commit_precedes_emission []"
  by (simp add: commit_precedes_emission_def)

lemma POST_offers_ordered:
  "commit_precedes_emission (added w (snd (POST_offers e req w)))"
proof (cases "fst (POST_offers e req w)")
  case (ErrorResponse c m)
  from POST_offers_error_unchanged [OF this] show ?thesis
    by (simp add: nothing_added_is_ordered)
next
  case (OfferResponse c j)
  from POST_offers_effects [OF this]
  obtain offer m1 fx1 m2 fx2 where p:
      "trace (snd (POST_offers e req w)) =
        trace w @ SqlWrite offer # ProducerSend m1 # fx1 @ ProducerSend m2 # fx2"
      "\<forall>x \<in> set fx1. \<not> is_write x" "\<forall>x \<in> set fx2. \<not> is_write x"
    by blast
  have "commit_precedes_emission
          (map SqlWrite [offer] @ (ProducerSend m1 # fx1 @ ProducerSend m2 # fx2))"
    using p(2,3) by (intro writes_first) auto
  with added_append [OF p(1)] show ?thesis by simp
next
  case (OffersResponse js)
  then show ?thesis
    by (auto simp: POST_offers_def errorResponse_def Let_def dest: requireAuth_Inl
          split: sum.splits option.splits safe_parse.splits list.splits prod.splits if_splits)
qed

lemma PATCH_offers_id_ordered:
  "commit_precedes_emission (added w (snd (PATCH_offers_id e req i w)))"
proof (cases "fst (PATCH_offers_id e req i w)")
  case (ErrorResponse c m)
  from PATCH_offers_id_error_unchanged [OF this] show ?thesis
    by (simp add: nothing_added_is_ordered)
next
  case (OfferResponse c j)
  from PATCH_offers_id_success [OF this]
  obtain st offer rest t1 s1 t2 s2 where p:
      "select_offer w i = offer # rest"
      "snd (PATCH_offers_id e req i w) =
        status_emails e t1 s1 t2 s2 (set_status st (clock e) offer)
          (snd (update_offer w i st (clock e)))"
    by blast
  from status_emails_quiet [of e t1 s1 t2 s2 "set_status st (clock e) offer"
         "snd (update_offer w i st (clock e))"]
  obtain fx where fx:
      "trace (snd (PATCH_offers_id e req i w)) =
         trace w @ map SqlWrite (map (set_status st (clock e)) (offer # rest)) @ fx"
      "\<forall>x \<in> set fx. \<not> is_write x"
    using p by (auto simp: update_offer_trace)
  have "commit_precedes_emission (map SqlWrite (map (set_status st (clock e)) (offer # rest)) @ fx)"
    using fx(2) by (intro writes_first) auto
  with added_append [OF fx(1)] show ?thesis by simp
next
  case (OffersResponse js)
  then have False
  proof (cases "patch_read e req i w")
    case (Inl r)
    with OffersResponse patch_read_Inl [OF Inl] show False by (auto simp: PATCH_offers_id_def)
  next
    case (Inr st)
    from patch_read_Inr [OF Inr] obtain offer rest where
      s: "st = Accepted \<or> st = Rejected" "select_offer w i = offer # rest"
      by blast
    from patch_write_shape [OF s(2) s(1), of e] OffersResponse Inr
    show False by (auto simp: PATCH_offers_id_def)
  qed
  then show ?thesis ..
qed

text \<open>
  C8. In every run of \<open>POST /offers\<close> and of \<open>PATCH /offers/:id\<close> the row is written
  before anything is handed to the producer, and nothing is written afterwards. Whether the
  broker takes the messages or not changes neither the response nor what the database
  holds: a failed publication ends in a line on \<open>console.error\<close>.
\<close>

theorem commit_first_and_broker_cannot_undo:
  "commit_precedes_emission (added w (snd (POST_offers e req w)))
 \<and> commit_precedes_emission (added w (snd (PATCH_offers_id e req offerId w)))
 \<and> fst (POST_offers (e\<lparr> broker := b \<rparr>) req w) = fst (POST_offers e req w)
 \<and> stored (snd (POST_offers (e\<lparr> broker := b \<rparr>) req w)) = stored (snd (POST_offers e req w))
 \<and> fst (PATCH_offers_id (e\<lparr> broker := b \<rparr>) req offerId w) = fst (PATCH_offers_id e req offerId w)
 \<and> stored (snd (PATCH_offers_id (e\<lparr> broker := b \<rparr>) req offerId w))
     = stored (snd (PATCH_offers_id e req offerId w))"
  using POST_offers_ordered [of w e req] PATCH_offers_id_ordered [of w e req offerId]
        POST_offers_any_broker [where e = e and b = b and req = req and w = w]
        PATCH_offers_id_any_broker [where e = e and b = b and req = req and i = offerId and w = w]
  by simp

lemma broker_down_facts:
  "fst (POST_offers env0 (as_user ''alice'' offer_zelda_for_metroid) world0) =
     OfferResponse 201 (formatTradeOfferResponse offer1)"
  "trade_offers (snd (POST_offers env0 (as_user ''alice'' offer_zelda_for_metroid) world0)) = [offer1]"
  "stored (snd (POST_offers env0 (as_user ''alice'' offer_zelda_for_metroid) world0))
     = ([alice, bob, carol], [zelda, metroid], [offer1], 1)"
  "length (sends (added world0
      (snd (POST_offers env0 (as_user ''alice'' offer_zelda_for_metroid) world0)))) = 2"
  by code_simp+

theorem commit_first_witness:
  "commit_precedes_emission
     (added world0 (snd (POST_offers env0 (as_user ''alice'' offer_zelda_for_metroid) world0)))
 \<and> length (sends (added world0
      (snd (POST_offers env0 (as_user ''alice'' offer_zelda_for_metroid) world0)))) = 2
 \<and> fst (POST_offers (env0\<lparr> broker := broker_down \<rparr>)
          (as_user ''alice'' offer_zelda_for_metroid) world0) =
     OfferResponse 201 (formatTradeOfferResponse offer1)
 \<and> stored (snd (POST_offers (env0\<lparr> broker := broker_down \<rparr>)
          (as_user ''alice'' offer_zelda_for_metroid) world0)) =
     ([alice, bob, carol], [zelda, metroid], [offer1], 1)"
  using commit_first_and_broker_cannot_undo
          [where w = world0 and e = env0 and req = "as_user ''alice'' offer_zelda_for_metroid"
             and offerId = 1 and b = broker_down]
        broker_down_facts
  by simp

subsection \<open>The status machine, one handler at a time\<close>

lemma POST_offers_response:
  "(\<exists>c m. fst (POST_offers e req w) = ErrorResponse c m)
 \<or> (\<exists>c j. fst (POST_offers e req w) = OfferResponse c j)"
  by (auto simp: POST_offers_def errorResponse_def Let_def dest: requireAuth_Inl
        split: sum.splits option.splits safe_parse.splits list.splits prod.splits if_splits)

lemma PATCH_offers_id_cases:
  "(\<exists>c m. PATCH_offers_id e req i w = (ErrorResponse c m, w))
 \<or> (\<exists>st offer rest. (st = Accepted \<or> st = Rejected)
       \<and> select_offer w i = offer # rest \<and> status offer = Pending
       \<and> (\<forall>k. select_offer (snd (PATCH_offers_id e req i w)) k =
              (if k = i then map (set_status st (clock e)) (offer # rest) else select_offer w k)))"
proof (cases "patch_read e req i w")
  case (Inl r)
  with patch_read_Inl [OF Inl] show ?thesis by (auto simp: PATCH_offers_id_def)
next
  case (Inr st)
  from patch_read_Inr [OF Inr] obtain offer rest where
    s: "st = Accepted \<or> st = Rejected" "select_offer w i = offer # rest" "status offer = Pending"
    by blast
  have "\<forall>k. select_offer (snd (PATCH_offers_id e req i w)) k =
              (if k = i then map (set_status st (clock e)) (offer # rest) else select_offer w k)"
    using Inr patch_write_result(2) [OF s(2), of e st] by (simp add: PATCH_offers_id_def)
  with s show ?thesis by blast
qed

lemma select_offer_appended:
  "trade_offers w1 = trade_offers w @ [offer] \<Longrightarrow>
   select_offer w1 k = select_offer w k @ (if offer_id offer = k then [offer] else [])"
  by (simp add: select_offer_def)

text \<open>A handler that runs from start to end with no other in between.\<close>

lemma POST_offers_keeps_status:
  assumes "status_of w k = Some s"
  shows "status_of (snd (POST_offers e req w)) k = Some s"
proof -
  from POST_offers_response [of e req w] show ?thesis
  proof (elim disjE exE)
    fix c m assume "fst (POST_offers e req w) = ErrorResponse c m"
    from POST_offers_error_unchanged [OF this] assms show ?thesis by simp
  next
    fix c j assume "fst (POST_offers e req w) = OfferResponse c j"
    from POST_offers_effects [OF this] obtain offer where
      "trade_offers (snd (POST_offers e req w)) = trade_offers w @ [offer]" by blast
    from select_offer_appended [OF this, of k] assms show ?thesis
      by (auto simp: status_of_def split: list.splits)
  qed
qed

lemma PATCH_offers_id_alone_follows_an_edge:
  assumes "status_of w k = Some s"
  shows "status_of (snd (PATCH_offers_id e req i w)) k = Some s
       \<or> (\<exists>t. edge s t \<and> status_of (snd (PATCH_offers_id e req i w)) k = Some t)"
proof -
  consider (failed) c m where "PATCH_offers_id e req i w = (ErrorResponse c m, w)"
    | (moved) st offer rest where "st = Accepted \<or> st = Rejected"
        "select_offer w i = offer # rest" "status offer = Pending"
        "\<forall>k. select_offer (snd (PATCH_offers_id e req i w)) k =
              (if k = i then map (set_status st (clock e)) (offer # rest) else select_offer w k)"
    using PATCH_offers_id_cases [of e req i w] by blast
  then show ?thesis
  proof cases
    case failed
    with assms show ?thesis by simp
  next
    case moved
    show ?thesis
    proof (cases "k = i")
      case True
      with assms moved(2,3) have "s = Pending" by (simp add: status_of_def)
      moreover from True moved(4)
      have "status_of (snd (PATCH_offers_id e req i w)) k = Some st"
        by (simp add: status_of_def)
      ultimately show ?thesis using moved(1) by (auto simp: edge_def)
    next
      case False
      with moved(4) assms show ?thesis by (simp add: status_of_def)
    qed
  qed
qed

subsection \<open>The consumer\<close>







subsection \<open>Two updates of one offer in flight\<close>

text \<open>
  Run alone, a request in flight is the handler; run one after the other, the second of
  Bob's two answers is refused. The \<open>UPDATE\<close> itself writes whatever status the row has.
\<close>

lemma one_after_the_other:
  "map answer (fst (interleave [0, 0, 1, 1] (race, world1))) =
     [Some (OfferResponse 200 (formatTradeOfferResponse (offer1\<lparr> status := Accepted \<rparr>))),
      Some (ErrorResponse 400 ''Only pending offers can be updated'')]
 \<and> status_of (snd (interleave [0, 0, 1, 1] (race, world1))) 1 = Some Accepted"
  by code_simp

lemma alone_is_the_handler:
  "interleave [0, 0] ([Arrived e req i], w) =
     ([Answered (fst (PATCH_offers_id e req i w))], snd (PATCH_offers_id e req i w))"
  by (simp add: PATCH_offers_id_def split: sum.split prod.split)

lemma update_is_unguarded:
  "select_offer w i = [offer] \<Longrightarrow>
   select_offer (snd (update_offer w i st n)) i = [offer\<lparr> status := st, updated_at := n \<rparr>]"
  by (simp add: select_offer_after_update set_status_def)

text \<open>
  C1. Offer 1 is pending and Bob is its recipient. His two requests, one accepting and one
  rejecting, are in flight together, and both read the offer before either writes it. Both
  are answered \<open>200\<close>, the first with status accepted and the second with status
  rejected, and the offer ends up rejected: the second \<open>UPDATE\<close> overwrote the first,
  and nobody was told \<open>Only pending offers can be updated\<close>.
\<close>

theorem concurrent_updates_both_succeed:
  "map answer (fst (interleave [0, 1, 0, 1] (race, world1))) =
     [Some (OfferResponse 200 (formatTradeOfferResponse (offer1\<lparr> status := Accepted \<rparr>))),
      Some (OfferResponse 200
              (formatTradeOfferResponse (offer1\<lparr> status := Rejected, updated_at := 2000 \<rparr>)))]
 \<and> status_of world1 1 = Some Pending
 \<and> status_of (snd (interleave [0, 1, 0, 1] (race, world1))) 1 = Some Rejected"
  by code_simp

text \<open>
  C3. Alice has created offer 1 and Bob's two answers to it are in flight together. Once
  both have read the pending offer and the first has written, the offer is accepted and the
  first request is answered \<open>200\<close>. The next step is the second request's \<open>UPDATE\<close>:
  it takes the offer from accepted to rejected, which is no edge of the status machine,
  and is answered \<open>200\<close> as well.
\<close>

theorem accepted_offer_is_overwritten_with_rejected:
  "status_of world1 1 = Some Pending
 \<and> status_of (snd (interleave [0, 1, 0] (race, world1))) 1 = Some Accepted
 \<and> map answer (fst (interleave [0, 1, 0] (race, world1))) =
      [Some (OfferResponse 200 (formatTradeOfferResponse (offer1\<lparr> status := Accepted \<rparr>))), None]
 \<and> status_of (snd (interleave [1] (interleave [0, 1, 0] (race, world1)))) 1 = Some Rejected
 \<and> map answer (fst (interleave [1] (interleave [0, 1, 0] (race, world1)))) =
      [Some (OfferResponse 200 (formatTradeOfferResponse (offer1\<lparr> status := Accepted \<rparr>))),
       Some (OfferResponse 200
               (formatTradeOfferResponse (offer1\<lparr> status := Rejected, updated_at := 2000 \<rparr>)))]
 \<and> \<not> edge Accepted Rejected"
  by code_simp

end
